theory Spec2Isabelle
  imports Complex_Main "HOL-Library.AList"
begin

section \<open>Python values, errors and results\<close>

text \<open>
  The embedding follows \<^verbatim>\<open>rastervision/pytorch_learner/learner_config.py\<close> and
  \<^verbatim>\<open>rastervision/ml_tasks/classification.py\<close>. Python integers are \<^typ>\<open>int\<close>;
  a finite Python float is the rational number it denotes (\<^typ>\<open>rat\<close>); a dict is an
  association list in insertion order; an exception is the \<open>Inl\<close> branch of a sum.
\<close>

datatype error =
    ConfigError string
  | ValueError string
  | KeyError
  | AttributeError string
  | TypeError
  | AssertionError
  | FileNotFoundError
  | NotImplementedError

datatype pyval =
    PNone
  | PBool bool
  | PInt int
  | PStr string
  | PList "pyval list"
  | PDict "(string \<times> pyval) list"

type_synonym pydict = "(string \<times> pyval) list"

text \<open>\<^verbatim>\<open>d[k]\<close> on a dict with string keys: a missing key raises KeyError.\<close>

definition dict_get :: "('k \<times> 'v) list \<Rightarrow> 'k \<Rightarrow> error + 'v" where
  "dict_get d k = (case map_of d k of None \<Rightarrow> Inl KeyError | Some v \<Rightarrow> Inr v)"

text \<open>
  \<^verbatim>\<open>d[k] = v\<close>: an existing key keeps its position and takes the new value, a new key
  is appended.
\<close>

definition dict_set :: "('k \<times> 'v) list \<Rightarrow> 'k \<Rightarrow> 'v \<Rightarrow> ('k \<times> 'v) list" where
  "dict_set d k v = AList.update k v d"

section \<open>Backbone\<close>

datatype Backbone =
    alexnet | densenet121 | densenet169 | densenet201 | densenet161
  | googlenet | inception_v3
  | mnasnet0_5 | mnasnet0_75 | mnasnet1_0 | mnasnet1_3 | mobilenet_v2
  | resnet18 | resnet34 | resnet50 | resnet101 | resnet152
  | resnext50_32x4d | resnext101_32x8d | wide_resnet50_2 | wide_resnet101_2
  | shufflenet_v2_x0_5 | shufflenet_v2_x1_0 | shufflenet_v2_x1_5 | shufflenet_v2_x2_0
  | squeezenet1_0 | squeezenet1_1
  | vgg11 | vgg11_bn | vgg13 | vgg13_bn | vgg16 | vgg16_bn | vgg19_bn | vgg19

text \<open>
  The name of a member of the enum (its value is the same string), and the members in the
  order of their definition, which is the order in which \<^verbatim>\<open>list(Backbone)\<close> yields them.
\<close>

fun Backbone_name :: "Backbone \<Rightarrow> string" where
  "Backbone_name alexnet = ''alexnet''"
| "Backbone_name densenet121 = ''densenet121''"
| "Backbone_name densenet169 = ''densenet169''"
| "Backbone_name densenet201 = ''densenet201''"
| "Backbone_name densenet161 = ''densenet161''"
| "Backbone_name googlenet = ''googlenet''"
| "Backbone_name inception_v3 = ''inception_v3''"
| "Backbone_name mnasnet0_5 = ''mnasnet0_5''"
| "Backbone_name mnasnet0_75 = ''mnasnet0_75''"
| "Backbone_name mnasnet1_0 = ''mnasnet1_0''"
| "Backbone_name mnasnet1_3 = ''mnasnet1_3''"
| "Backbone_name mobilenet_v2 = ''mobilenet_v2''"
| "Backbone_name resnet18 = ''resnet18''"
| "Backbone_name resnet34 = ''resnet34''"
| "Backbone_name resnet50 = ''resnet50''"
| "Backbone_name resnet101 = ''resnet101''"
| "Backbone_name resnet152 = ''resnet152''"
| "Backbone_name resnext50_32x4d = ''resnext50_32x4d''"
| "Backbone_name resnext101_32x8d = ''resnext101_32x8d''"
| "Backbone_name wide_resnet50_2 = ''wide_resnet50_2''"
| "Backbone_name wide_resnet101_2 = ''wide_resnet101_2''"
| "Backbone_name shufflenet_v2_x0_5 = ''shufflenet_v2_x0_5''"
| "Backbone_name shufflenet_v2_x1_0 = ''shufflenet_v2_x1_0''"
| "Backbone_name shufflenet_v2_x1_5 = ''shufflenet_v2_x1_5''"
| "Backbone_name shufflenet_v2_x2_0 = ''shufflenet_v2_x2_0''"
| "Backbone_name squeezenet1_0 = ''squeezenet1_0''"
| "Backbone_name squeezenet1_1 = ''squeezenet1_1''"
| "Backbone_name vgg11 = ''vgg11''"
| "Backbone_name vgg11_bn = ''vgg11_bn''"
| "Backbone_name vgg13 = ''vgg13''"
| "Backbone_name vgg13_bn = ''vgg13_bn''"
| "Backbone_name vgg16 = ''vgg16''"
| "Backbone_name vgg16_bn = ''vgg16_bn''"
| "Backbone_name vgg19_bn = ''vgg19_bn''"
| "Backbone_name vgg19 = ''vgg19''"

definition Backbone_members :: "Backbone list" where
  "Backbone_members =
    [alexnet, densenet121, densenet169, densenet201, densenet161,
     googlenet, inception_v3, mnasnet0_5, mnasnet0_75, mnasnet1_0,
     mnasnet1_3, mobilenet_v2, resnet18, resnet34, resnet50,
     resnet101, resnet152, resnext50_32x4d, resnext101_32x8d, wide_resnet50_2,
     wide_resnet101_2, shufflenet_v2_x0_5, shufflenet_v2_x1_0, shufflenet_v2_x1_5, shufflenet_v2_x2_0,
     squeezenet1_0, squeezenet1_1, vgg11, vgg11_bn, vgg13,
     vgg13_bn, vgg16, vgg16_bn, vgg19_bn, vgg19]"

text \<open>The literal dict inside \<^verbatim>\<open>Backbone.int_to_str\<close>.\<close>

definition mapping :: "(int \<times> string) list" where
  "mapping =
    [(1, ''alexnet''),
     (2, ''densenet121''),
     (3, ''densenet169''),
     (4, ''densenet201''),
     (5, ''densenet161''),
     (6, ''googlenet''),
     (7, ''inception_v3''),
     (8, ''mnasnet0_5''),
     (9, ''mnasnet0_75''),
     (10, ''mnasnet1_0''),
     (11, ''mnasnet1_3''),
     (12, ''mobilenet_v2''),
     (13, ''resnet18''),
     (14, ''resnet34''),
     (15, ''resnet50''),
     (16, ''resnet101''),
     (17, ''resnet152''),
     (18, ''resnext50_32x4d''),
     (19, ''resnext101_32x8d''),
     (20, ''wide_resnet50_2''),
     (21, ''wide_resnet101_2''),
     (22, ''shufflenet_v2_x0_5''),
     (23, ''shufflenet_v2_x1_0''),
     (24, ''shufflenet_v2_x1_5''),
     (25, ''shufflenet_v2_x2_0''),
     (26, ''squeezenet1_0''),
     (27, ''squeezenet1_1''),
     (28, ''vgg11''),
     (29, ''vgg11_bn''),
     (30, ''vgg13''),
     (31, ''vgg13_bn''),
     (32, ''vgg16''),
     (33, ''vgg16_bn''),
     (34, ''vgg19_bn''),
     (35, ''vgg19'')]"

text \<open>
  \<^verbatim>\<open>mapping[x]\<close>. The keys are integers; Python finds the key \<open>1\<close> for \<open>True\<close> and
  \<open>0\<close> for \<open>False\<close>, no key for a string or \<open>None\<close> (KeyError), and refuses an
  unhashable list or dict (TypeError).
\<close>

fun int_to_str :: "pyval \<Rightarrow> error + string" where
  "int_to_str (PInt x) = dict_get mapping x"
| "int_to_str (PBool b) = dict_get mapping (if b then 1 else 0)"
| "int_to_str (PList _) = Inl TypeError"
| "int_to_str (PDict _) = Inl TypeError"
| "int_to_str _ = Inl KeyError"

definition model_config_upgrader :: "pydict \<Rightarrow> int \<Rightarrow> error + pydict" where
  "model_config_upgrader cfg_dict version =
     (if version = 0 then
        (case dict_get cfg_dict ''backbone'' of
           Inl e \<Rightarrow> Inl e
         | Inr x \<Rightarrow>
             (case int_to_str x of
                Inl e \<Rightarrow> Inl e
              | Inr s \<Rightarrow> Inr (dict_set cfg_dict ''backbone'' (PStr s))))
      else Inr cfg_dict)"

section \<open>ExternalModuleConfig, ModelConfig, SolverConfig\<close>

record ExternalModuleConfig =
  uri :: "string option"
  github_repo :: "string option"
  name :: "string option"
  entrypoint :: string
  entrypoint_args :: "pyval list"
  entrypoint_kwargs :: pydict
  force_reload :: bool

text \<open>An external loss definition, used in the examples below.\<close>

definition example_external :: ExternalModuleConfig where
  "example_external =
     \<lparr>uri = Some ''s3://bucket/loss.zip'', github_repo = None, name = None,
      entrypoint = ''make_loss'', entrypoint_args = [], entrypoint_kwargs = [],
      force_reload = False\<rparr>"

record ModelConfig =
  backbone :: Backbone
  pretrained :: bool
  init_weights :: "string option"
  load_strict :: bool
  external_def :: "ExternalModuleConfig option"

text \<open>\<^verbatim>\<open>ModelConfig.get_backbone_str\<close>.\<close>

definition get_backbone_str :: "ModelConfig \<Rightarrow> string" where
  "get_backbone_str self = Backbone_name (backbone self)"

text \<open>\<^verbatim>\<open>ignore_last_class: Union[bool, Literal['force']]\<close>.\<close>

datatype ignore_last = IgnoreBool bool | Force

text \<open>
  The fields of \<^verbatim>\<open>SolverConfig\<close>, all of them: the class declares no
  \<^verbatim>\<open>test_overfit_num_steps\<close>.
\<close>

record SolverConfig =
  lr :: rat
  num_epochs :: int
  test_num_epochs :: int
  test_batch_sz :: int
  overfit_num_steps :: int
  sync_interval :: int
  batch_sz :: int
  one_cycle :: bool
  multi_stage :: "pyval list"
  class_loss_weights :: "rat list option"
  ignore_last_class :: ignore_last
  external_loss_def :: "ExternalModuleConfig option"

text \<open>
  \<^verbatim>\<open>SolverConfig.validate_config\<close>. \<^verbatim>\<open>self.ignore_last_class is True\<close> holds for the
  boolean \<open>True\<close> only, not for \<^verbatim>\<open>'force'\<close>.
\<close>

definition solver_validate_config :: "SolverConfig \<Rightarrow> error + unit" where
  "solver_validate_config self =
     (let has_weights = (class_loss_weights self \<noteq> None);
          has_external_loss_def = (external_loss_def self \<noteq> None)
      in if ignore_last_class self = IgnoreBool True \<and> has_external_loss_def then
           Inl (ConfigError
             (''ignore_last_class=True is not supported with external_loss_def.  '' @
              ''Please carefully considering using ignore_last_class='' @ [CHR 0x27] @ ''force'' @
              [CHR 0x27] @ '' '' @
              ''and setting the external loss function to ignore the last index.''))
         else if has_weights \<and> has_external_loss_def then
           Inl (ConfigError ''class_loss_weights is not supported with external_loss_def.'')
         else Inr ())"

text \<open>\<^verbatim>\<open>SolverConfig()\<close>: every field at its default.\<close>

definition default_solver :: SolverConfig where
  "default_solver =
     \<lparr>lr = 1 / 10000, num_epochs = 10, test_num_epochs = 2, test_batch_sz = 4,
      overfit_num_steps = 1, sync_interval = 1, batch_sz = 32, one_cycle = True,
      multi_stage = [], class_loss_weights = None, ignore_last_class = IgnoreBool False,
      external_loss_def = None\<rparr>"

section \<open>PlotOptions\<close>

text \<open>
  \<^verbatim>\<open>channel_display_groups\<close> is a dict from titles to groups of channel indices, or a
  list or tuple of groups. A group is a sequence of integers.
\<close>

datatype channel_groups =
    GroupsDict "(string \<times> int list) list"
  | GroupsSeq "int list list"

record PlotOptions =
  transform :: "pydict option"
  channel_display_groups :: "channel_groups option"

text \<open>\<^verbatim>\<open>str(n)\<close> for an integer, and \<^verbatim>\<open>str(xs)\<close> for a list of integers.\<close>

definition digit_char :: "nat \<Rightarrow> char" where
  "digit_char d = ''0123456789'' ! d"

fun str_nat :: "nat \<Rightarrow> string" where
  "str_nat n =
     (if n < 10 then [digit_char n]
      else str_nat (n div 10) @ [digit_char (n mod 10)])"

declare str_nat.simps [simp del]

definition str_int :: "int \<Rightarrow> string" where
  "str_int i = (if i < 0 then CHR ''-'' # str_nat (nat (- i)) else str_nat (nat i))"

fun join_str :: "string \<Rightarrow> string list \<Rightarrow> string" where
  "join_str sep [] = []"
| "join_str sep [x] = x"
| "join_str sep (x # y # ys) = x @ sep @ join_str sep (y # ys)"

definition str_list :: "int list \<Rightarrow> string" where
  "str_list xs = ''['' @ join_str '', '' (map str_int xs) @ '']''"

text \<open>The key \<^verbatim>\<open>f'Channels: {[*chs]}'\<close> of a group given in list form.\<close>

definition channels_label :: "int list \<Rightarrow> string" where
  "channels_label chs = ''Channels: '' @ str_list chs"

text \<open>\<^verbatim>\<open>list(range(n))\<close>.\<close>

definition py_range :: "int \<Rightarrow> int list" where
  "py_range n = [0..n - 1]"

definition len_groups :: "channel_groups \<Rightarrow> nat" where
  "len_groups g = (case g of GroupsDict d \<Rightarrow> length d | GroupsSeq gs \<Rightarrow> length gs)"

text \<open>
  The two dict comprehensions: the entries are stored one after the other, so a key that
  comes again replaces the value stored under it.
\<close>

definition groups_of_seq :: "int list list \<Rightarrow> (string \<times> int list) list" where
  "groups_of_seq gs = foldl (\<lambda>d chs. dict_set d (channels_label chs) chs) [] gs"

definition groups_of_dict :: "(string \<times> int list) list \<Rightarrow> (string \<times> int list) list" where
  "groups_of_dict items = foldl (\<lambda>d (k, v). dict_set d k v) [] items"

text \<open>The loop over \<^verbatim>\<open>groups.items()\<close>: it stops at the first group that fails a check.\<close>

fun check_groups :: "int \<Rightarrow> (string \<times> int list) list \<Rightarrow> error + unit" where
  "check_groups img_channels [] = Inr ()"
| "check_groups img_channels ((k, v) # rest) =
     (if \<not> (0 < length v \<and> length v \<le> 3) then
        Inl (ConfigError (''channel_display_groups['' @ k @ '']: '' @
                          ''len(group) must be 1, 2, or 3''))
      else if \<not> list_all (\<lambda>i. 0 \<le> i \<and> i < img_channels) v then
        Inl (ConfigError (''Invalid channel indices in '' @
                          ''channel_display_groups['' @ k @ ''].''))
      else check_groups img_channels rest)"

definition checked_groups ::
  "int \<Rightarrow> (string \<times> int list) list \<Rightarrow> error + (string \<times> int list) list" where
  "checked_groups img_channels groups =
     (case check_groups img_channels groups of Inl e \<Rightarrow> Inl e | Inr _ \<Rightarrow> Inr groups)"

definition validate_and_update_channel_display_groups ::
  "PlotOptions \<Rightarrow> int \<Rightarrow> error + (string \<times> int list) list" where
  "validate_and_update_channel_display_groups self img_channels =
     (case channel_display_groups self of
        None \<Rightarrow>
          (let num_display_channels = min 3 img_channels
           in checked_groups img_channels [(''Input'', py_range num_display_channels)])
      | Some groups \<Rightarrow>
          if len_groups groups = 0 then
            Inl (ConfigError ''channel_display_groups cannot be empty. Set to None instead.'')
          else
            (case groups of
               GroupsSeq gs \<Rightarrow> checked_groups img_channels (groups_of_seq gs)
             | GroupsDict d \<Rightarrow> checked_groups img_channels (groups_of_dict d)))"

section \<open>Datasets and the random module\<close>

text \<open>
  A dataset is what \<^verbatim>\<open>dir_to_dataset\<close> or \<^verbatim>\<open>scene_to_dataset\<close> returns (a leaf
  with its items; the Python list \<^verbatim>\<open>[]\<close> used as an empty dataset is \<open>Data []\<close>), or
  one of the two wrappers of \<^verbatim>\<open>torch.utils.data\<close>.
\<close>

datatype 'a dataset =
    Data "'a list"
  | Subset "'a dataset" "nat list"
  | ConcatDataset "'a dataset list"

fun len :: "'a dataset \<Rightarrow> nat" where
  "len (Data xs) = length xs"
| "len (Subset ds inds) = length inds"
| "len (ConcatDataset dss) = sum_list (map len dss)"

text \<open>
  The constructor \<^verbatim>\<open>ConcatDataset(datasets)\<close> asserts that the list is not empty.
\<close>

definition concat_dataset :: "'a dataset list \<Rightarrow> error + 'a dataset" where
  "concat_dataset dss = (if dss = [] then Inl AssertionError else Inr (ConcatDataset dss))"

text \<open>
  What the code takes from the Python runtime and from
  \<^verbatim>\<open>rastervision.pytorch_learner.utils\<close>, as parameters: \<open>'g\<close> is the state of the
  process-wide generator of the module \<^verbatim>\<open>random\<close>; \<open>seed\<close> is the state after
  \<^verbatim>\<open>random.seed(a)\<close> (it does not depend on the state before); \<open>shuffle\<close> is
  \<^verbatim>\<open>random.shuffle\<close>, returning the shuffled list and the state it leaves;
  \<open>color_to_triple\<close> draws a random colour; \<open>fround\<close> rounds the exact product of two
  floats to the float that \<^verbatim>\<open>*\<close> returns.
\<close>

datatype color = ColorName string | ColorTriple int int int

record 'g runtime =
  seed :: "int \<Rightarrow> 'g"
  shuffle :: "'g \<Rightarrow> nat list \<Rightarrow> nat list \<times> 'g"
  color_to_triple :: "'g \<Rightarrow> color \<times> 'g"
  fround :: "rat \<Rightarrow> rat"

text \<open>\<^verbatim>\<open>int(x)\<close> of a float: truncation towards zero.\<close>

definition py_int :: "rat \<Rightarrow> int" where
  "py_int x = (if 0 \<le> x then \<lfloor>x\<rfloor> else \<lceil>x\<rceil>)"

text \<open>
  The slice \<^verbatim>\<open>xs[:k]\<close>: the first \<open>k\<close> elements, and for a negative \<open>k\<close> all but the
  last \<open>- k\<close>.
\<close>

definition slice_to :: "'a list \<Rightarrow> int \<Rightarrow> 'a list" where
  "slice_to xs k = (if 0 \<le> k then take (nat k) xs else take (nat (int (length xs) + k)) xs)"

text \<open>
  \<^verbatim>\<open>DataConfig.random_subset_dataset\<close>, with the generator's state passed in and out.
  Past the two tests exactly one of \<open>sz\<close> and \<open>fraction\<close> is set, so the last branch
  of the inner case is never taken.
\<close>

definition random_subset_dataset ::
  "'g runtime \<Rightarrow> 'g \<Rightarrow> 'a dataset \<Rightarrow> int option \<Rightarrow> rat option \<Rightarrow> error + ('a dataset \<times> 'g)" where
  "random_subset_dataset rt g ds sz fraction =
     (if sz = None \<and> fraction = None then Inr (ds, g)
      else if sz \<noteq> None \<and> fraction \<noteq> None then
        Inl (ValueError ''Specify either size or fraction but not both.'')
      else
        (let sz' = (case fraction of
                      Some f \<Rightarrow> py_int (fround rt (of_nat (len ds) * f))
                    | None \<Rightarrow> (case sz of Some k \<Rightarrow> k | None \<Rightarrow> 0));
             g1 = seed rt 1234;
             inds = [0..<len ds];
             (inds', g2) = shuffle rt g1 inds
         in Inr (Subset ds (slice_to inds' sz'), g2)))"

section \<open>DataConfig\<close>

record DataConfig =
  class_names :: "string list"
  class_colors :: "color list option"
  img_channels :: "int option"
  img_sz :: int
  train_sz :: "int option"
  train_sz_rel :: "rat option"
  num_workers :: int
  augmentors :: "string list"
  base_transform :: "pydict option"
  aug_transform :: "pydict option"
  plot_options :: "PlotOptions option"
  preview_batch_limit :: "int option"

text \<open>
  \<^verbatim>\<open>PlotOptions.update(data_cfg)\<close>. The \<^verbatim>\<open>super().update()\<close> it starts with is the
  base class's, which does nothing.
\<close>

definition PlotOptions_update ::
  "PlotOptions \<Rightarrow> 'z DataConfig_scheme \<Rightarrow> error + PlotOptions" where
  "PlotOptions_update self data_cfg =
     (case img_channels data_cfg of
        None \<Rightarrow> Inr self
      | Some n \<Rightarrow>
          (case validate_and_update_channel_display_groups self n of
             Inl e \<Rightarrow> Inl e
           | Inr groups \<Rightarrow> Inr (self\<lparr>channel_display_groups := Some (GroupsDict groups)\<rparr>)))"

text \<open>\<^verbatim>\<open>[color_to_triple() for _ in self.class_names]\<close>.\<close>

fun random_colors :: "'g runtime \<Rightarrow> 'g \<Rightarrow> 'b list \<Rightarrow> color list \<times> 'g" where
  "random_colors rt g [] = ([], g)"
| "random_colors rt g (_ # rest) =
     (let (c, g1) = color_to_triple rt g;
          (cs, g2) = random_colors rt g1 rest
      in (c # cs, g2))"

text \<open>
  \<^verbatim>\<open>DataConfig.update\<close>. \<^verbatim>\<open>not self.class_colors\<close> holds for \<open>None\<close> and for the
  empty list; \<^verbatim>\<open>plot_options\<close> is optional, and calling \<^verbatim>\<open>update\<close> on \<open>None\<close>
  raises AttributeError.
\<close>

definition DataConfig_update ::
  "'g runtime \<Rightarrow> 'g \<Rightarrow> 'z DataConfig_scheme \<Rightarrow> error + ('z DataConfig_scheme \<times> 'g)" where
  "DataConfig_update rt g self =
     (let (self1, g1) =
            (if class_colors self = None \<or> class_colors self = Some [] then
               (let (cs, g') = random_colors rt g (class_names self)
                in (self\<lparr>class_colors := Some cs\<rparr>, g'))
             else (self, g))
      in case plot_options self1 of
           None \<Rightarrow> Inl (AttributeError ''update'')
         | Some po \<Rightarrow>
             (case PlotOptions_update po self1 of
                Inl e \<Rightarrow> Inl e
              | Inr po' \<Rightarrow> Inr (self1\<lparr>plot_options := Some po'\<rparr>, g1)))"

section \<open>ImageDataConfig\<close>

text \<open>\<^verbatim>\<open>Union[str, List[str]]\<close>, and a single value or a list of them.\<close>

datatype uri_spec = UriStr string | UriList "string list"

datatype 'n one_or_many = One 'n | Many "'n list"

record ImageDataConfig = DataConfig +
  data_format :: "string option"
  uri :: "uri_spec option"
  group_uris :: "uri_spec list option"
  group_train_sz :: "int one_or_many option"
  group_train_sz_rel :: "rat one_or_many option"

text \<open>
  What the dataset construction takes from outside, as parameters. \<open>get_data_dirs\<close> is
  the resolution of a URI to local directories through the file system (it downloads and
  unzips; it raises on a wrong extension or a missing URI); \<open>isdir\<close> is
  \<^verbatim>\<open>os.path.isdir\<close>; \<open>get_data_transforms\<close> is the pair (base transform, augmenting
  transform) that \<^verbatim>\<open>self.get_data_transforms()\<close> returns; \<open>dir_to_dataset\<close> and
  \<open>scene_to_dataset\<close> are the methods a concrete subclass supplies; \<open>build_scene\<close> is
  \<^verbatim>\<open>s.build(class_cfg, tmp_dir, use_transformers=True)\<close>.
\<close>

record ('sc, 's, 't, 'a) env =
  get_data_dirs :: "uri_spec option \<Rightarrow> error + string list"
  isdir :: "string \<Rightarrow> bool"
  get_data_transforms :: "'t \<times> 't"
  dir_to_dataset :: "string \<Rightarrow> 't \<Rightarrow> 'a dataset"
  build_scene :: "'sc \<Rightarrow> 's"
  scene_to_dataset :: "'s \<Rightarrow> 't \<Rightarrow> 'a dataset"

text \<open>\<^verbatim>\<open>os.path.join(a, b)\<close> for a relative \<open>b\<close>.\<close>

definition path_join :: "string \<Rightarrow> string \<Rightarrow> string" where
  "path_join a b =
     (if a = [] then b else if last a = CHR ''/'' then a @ b else a @ ''/'' @ b)"

text \<open>
  The end of both \<^verbatim>\<open>make_datasets\<close>: an empty list of datasets gets the empty list as
  its only dataset, then the lists are concatenated.
\<close>

definition pad_empty :: "'a dataset list \<Rightarrow> 'a dataset list" where
  "pad_empty ds_list = (if length ds_list = 0 then ds_list @ [Data []] else ds_list)"

definition concat_three ::
  "'a dataset list \<Rightarrow> 'a dataset list \<Rightarrow> 'a dataset list \<Rightarrow>
   error + ('a dataset \<times> 'a dataset \<times> 'a dataset)" where
  "concat_three train_ds_list val_ds_list test_ds_list =
     (case concat_dataset train_ds_list of
        Inl e \<Rightarrow> Inl e
      | Inr train_ds \<Rightarrow>
          (case concat_dataset val_ds_list of
             Inl e \<Rightarrow> Inl e
           | Inr val_ds \<Rightarrow>
               (case concat_dataset test_ds_list of
                  Inl e \<Rightarrow> Inl e
                | Inr test_ds \<Rightarrow> Inr (train_ds, val_ds, test_ds))))"

definition make_datasets ::
  "('sc, 's, 't, 'a) env \<Rightarrow> string list \<Rightarrow> string list \<Rightarrow> string list \<Rightarrow> 't \<Rightarrow> 't \<Rightarrow> 't \<Rightarrow>
   error + ('a dataset \<times> 'a dataset \<times> 'a dataset)" where
  "make_datasets e train_dirs val_dirs test_dirs train_tf val_tf test_tf =
     (let train_ds_list = map (\<lambda>d. dir_to_dataset e d train_tf) train_dirs;
          val_ds_list = map (\<lambda>d. dir_to_dataset e d val_tf) val_dirs;
          test_ds_list = map (\<lambda>d. dir_to_dataset e d test_tf) test_dirs
      in concat_three (pad_empty train_ds_list) (pad_empty val_ds_list) (pad_empty test_ds_list))"

text \<open>
  \<^verbatim>\<open>get_datasets_from_uri\<close>. Its \<^verbatim>\<open>tmp_dir\<close> only reaches \<^verbatim>\<open>get_data_dirs\<close>, and
  its \<^verbatim>\<open>test_mode\<close> is never read.
\<close>

definition get_datasets_from_uri ::
  "('sc, 's, 't, 'a) env \<Rightarrow> uri_spec option \<Rightarrow> bool \<Rightarrow>
   error + ('a dataset \<times> 'a dataset \<times> 'a dataset)" where
  "get_datasets_from_uri e u overfit_mode =
     (case get_data_dirs e u of
        Inl err \<Rightarrow> Inl err
      | Inr data_dirs \<Rightarrow>
          (let train_dirs = map (\<lambda>d. path_join d ''train'') (filter (isdir e) data_dirs);
               val_dirs = map (\<lambda>d. path_join d ''valid'') (filter (isdir e) data_dirs);
               test_dirs = map (\<lambda>d. path_join d ''test'') (filter (isdir e) data_dirs);
               train_dirs = filter (isdir e) train_dirs;
               val_dirs = filter (isdir e) val_dirs;
               test_dirs = filter (isdir e) test_dirs;
               (base_transform, aug_transform) = get_data_transforms e;
               train_tf = (if \<not> overfit_mode then aug_transform else base_transform)
           in make_datasets e train_dirs val_dirs test_dirs train_tf base_transform
                base_transform))"

text \<open>An element of \<^verbatim>\<open>group_sizes\<close>: an integer count or a float proportion.\<close>

datatype group_size = IntV int | FloatV rat

text \<open>
  The value of \<^verbatim>\<open>group_sizes\<close> before the loop of
  \<^verbatim>\<open>get_datasets_from_group_uris\<close>: the list given, or the single value (which may be
  \<open>None\<close>) once for every URI.
\<close>

definition group_sizes ::
  "uri_spec list \<Rightarrow> int one_or_many option \<Rightarrow> rat one_or_many option \<Rightarrow> group_size option list" where
  "group_sizes uris group_train_sz' group_train_sz_rel' =
     (case group_train_sz' of
        Some (Many l) \<Rightarrow> map (\<lambda>k. Some (IntV k)) l
      | Some (One k) \<Rightarrow> replicate (length uris) (Some (IntV k))
      | None \<Rightarrow>
          (case group_train_sz_rel' of
             Some (Many l) \<Rightarrow> map (\<lambda>f. Some (FloatV f)) l
           | Some (One f) \<Rightarrow> replicate (length uris) (Some (FloatV f))
           | None \<Rightarrow> replicate (length uris) None))"

text \<open>
  The dataset that a cap of \<open>k\<close> selects from \<open>ds\<close>: the wrapper around \<open>ds\<close> with the
  slice \<^verbatim>\<open>[:k]\<close> of the indices shuffled after \<^verbatim>\<open>random.seed(1234)\<close>. It is used to
  state what \<open>random_subset_dataset\<close> returns.
\<close>

definition subset_first :: "'g runtime \<Rightarrow> 'a dataset \<Rightarrow> int \<Rightarrow> 'a dataset" where
  "subset_first rt ds k = Subset ds (slice_to (fst (shuffle rt (seed rt 1234) [0..<len ds])) k)"

definition capped :: "'g runtime \<Rightarrow> 'a dataset \<Rightarrow> group_size option \<Rightarrow> 'a dataset" where
  "capped rt ds sz =
     (case sz of
        None \<Rightarrow> ds
      | Some (IntV k) \<Rightarrow> subset_first rt ds k
      | Some (FloatV f) \<Rightarrow> subset_first rt ds (py_int (fround rt (of_nat (len ds) * f))))"

text \<open>The cap on one group: \<^verbatim>\<open>isinstance(size, float)\<close> chooses the keyword.\<close>

definition group_cap ::
  "'g runtime \<Rightarrow> 'g \<Rightarrow> 'a dataset \<Rightarrow> group_size option \<Rightarrow> error + ('a dataset \<times> 'g)" where
  "group_cap rt g train_ds sz =
     (case sz of
        None \<Rightarrow> Inr (train_ds, g)
      | Some (FloatV f) \<Rightarrow> random_subset_dataset rt g train_ds None (Some f)
      | Some (IntV k) \<Rightarrow> random_subset_dataset rt g train_ds (Some k) None)"

text \<open>The loop over \<^verbatim>\<open>zip(uris, group_sizes)\<close>, with the three lists it appends to.\<close>

fun group_loop ::
  "'g runtime \<Rightarrow> ('sc, 's, 't, 'a) env \<Rightarrow> bool \<Rightarrow> (uri_spec \<times> group_size option) list \<Rightarrow> 'g \<Rightarrow>
   'a dataset list \<times> 'a dataset list \<times> 'a dataset list \<Rightarrow>
   error + (('a dataset list \<times> 'a dataset list \<times> 'a dataset list) \<times> 'g)" where
  "group_loop rt e overfit_mode [] g acc = Inr (acc, g)"
| "group_loop rt e overfit_mode ((u, sz) # rest) g (train_ds_lst, valid_ds_lst, test_ds_lst) =
     (case get_datasets_from_uri e (Some u) overfit_mode of
        Inl err \<Rightarrow> Inl err
      | Inr (train_ds, valid_ds, test_ds) \<Rightarrow>
          (case group_cap rt g train_ds sz of
             Inl err \<Rightarrow> Inl err
           | Inr (train_ds', g') \<Rightarrow>
               group_loop rt e overfit_mode rest g'
                 (train_ds_lst @ [train_ds'], valid_ds_lst @ [valid_ds],
                  test_ds_lst @ [test_ds])))"

definition get_datasets_from_group_uris ::
  "'g runtime \<Rightarrow> ('sc, 's, 't, 'a) env \<Rightarrow> 'g \<Rightarrow> uri_spec list \<Rightarrow>
   int one_or_many option \<Rightarrow> rat one_or_many option \<Rightarrow> bool \<Rightarrow>
   error + (('a dataset \<times> 'a dataset \<times> 'a dataset) \<times> 'g)" where
  "get_datasets_from_group_uris rt e g uris group_train_sz' group_train_sz_rel' overfit_mode =
     (case group_loop rt e overfit_mode
             (zip uris (group_sizes uris group_train_sz' group_train_sz_rel')) g ([], [], []) of
        Inl err \<Rightarrow> Inl err
      | Inr ((train_ds_lst, valid_ds_lst, test_ds_lst), g') \<Rightarrow>
          (case concat_three train_ds_lst valid_ds_lst test_ds_lst of
             Inl err \<Rightarrow> Inl err
           | Inr dss \<Rightarrow> Inr (dss, g')))"

text \<open>
  \<^verbatim>\<open>ImageDataConfig.build\<close>. The call of \<^verbatim>\<open>get_datasets_from_group_uris\<close> passes
  the URIs, the directory and the two modes, so the two group-size parameters keep their
  default \<open>None\<close>. The warning logged when both \<^verbatim>\<open>uri\<close> and \<^verbatim>\<open>group_uris\<close> are
  set is not modelled.
\<close>

definition image_build ::
  "'g runtime \<Rightarrow> ('sc, 's, 't, 'a) env \<Rightarrow> 'g \<Rightarrow> 'z ImageDataConfig_scheme \<Rightarrow> bool \<Rightarrow>
   error + (('a dataset \<times> 'a dataset \<times> 'a dataset) \<times> 'g)" where
  "image_build rt e g self overfit_mode =
     (case group_uris self of
        None \<Rightarrow>
          (case get_datasets_from_uri e (uri self) overfit_mode of
             Inl err \<Rightarrow> Inl err
           | Inr dss \<Rightarrow> Inr (dss, g))
      | Some uris \<Rightarrow>
          (case get_datasets_from_group_uris rt e g uris None None overfit_mode of
             Inl err \<Rightarrow> Inl err
           | Inr ((train_ds, valid_ds, test_ds), g') \<Rightarrow>
               if train_sz self \<noteq> None \<or> train_sz_rel self \<noteq> None then
                 (case random_subset_dataset rt g' train_ds (train_sz self) (train_sz_rel self) of
                    Inl err \<Rightarrow> Inl err
                  | Inr (train_ds', g'') \<Rightarrow> Inr ((train_ds', valid_ds, test_ds), g''))
               else Inr ((train_ds, valid_ds, test_ds), g')))"

subsection \<open>The build as the claims word it\<close>

text \<open>
  \<^verbatim>\<open>ImageDataConfig.build\<close> as the claim about the caps words it, to be compared with
  \<open>image_build\<close>: with \<^verbatim>\<open>group_uris\<close> set, the per-group caps of the config are
  applied to each group before concatenation and no overall cap follows; without it, the
  overall cap is applied.
\<close>

definition image_build_as_claimed ::
  "'g runtime \<Rightarrow> ('sc, 's, 't, 'a) env \<Rightarrow> 'g \<Rightarrow> 'z ImageDataConfig_scheme \<Rightarrow> bool \<Rightarrow>
   error + (('a dataset \<times> 'a dataset \<times> 'a dataset) \<times> 'g)" where
  "image_build_as_claimed rt e g self overfit_mode =
     (case group_uris self of
        None \<Rightarrow>
          (case get_datasets_from_uri e (uri self) overfit_mode of
             Inl err \<Rightarrow> Inl err
           | Inr (train_ds, valid_ds, test_ds) \<Rightarrow>
               (case random_subset_dataset rt g train_ds (train_sz self) (train_sz_rel self) of
                  Inl err \<Rightarrow> Inl err
                | Inr (train_ds', g') \<Rightarrow> Inr ((train_ds', valid_ds, test_ds), g')))
      | Some uris \<Rightarrow>
          get_datasets_from_group_uris rt e g uris (group_train_sz self)
            (group_train_sz_rel self) overfit_mode)"

text \<open>
  \<^verbatim>\<open>ImageDataConfig.build\<close> with the guard around the overall cap removed, to be
  compared with \<open>image_build\<close>.
\<close>

definition image_build_unconditional ::
  "'g runtime \<Rightarrow> ('sc, 's, 't, 'a) env \<Rightarrow> 'g \<Rightarrow> 'z ImageDataConfig_scheme \<Rightarrow> bool \<Rightarrow>
   error + (('a dataset \<times> 'a dataset \<times> 'a dataset) \<times> 'g)" where
  "image_build_unconditional rt e g self overfit_mode =
     (case group_uris self of
        None \<Rightarrow>
          (case get_datasets_from_uri e (uri self) overfit_mode of
             Inl err \<Rightarrow> Inl err
           | Inr dss \<Rightarrow> Inr (dss, g))
      | Some uris \<Rightarrow>
          (case get_datasets_from_group_uris rt e g uris None None overfit_mode of
             Inl err \<Rightarrow> Inl err
           | Inr ((train_ds, valid_ds, test_ds), g') \<Rightarrow>
               (case random_subset_dataset rt g' train_ds (train_sz self) (train_sz_rel self) of
                  Inl err \<Rightarrow> Inl err
                | Inr (train_ds', g'') \<Rightarrow> Inr ((train_ds', valid_ds, test_ds), g''))))"

section \<open>GeoDataWindowConfig\<close>

datatype GeoDataWindowMethod = Sliding | Random

text \<open>\<^verbatim>\<open>Union[PosInt, Tuple[PosInt, PosInt]]\<close>.\<close>

datatype int_or_pair = IntOnly int | IntPair int int

record GeoDataWindowConfig =
  wmethod :: GeoDataWindowMethod
  wsize :: int_or_pair
  stride :: "int_or_pair option"
  padding :: "int_or_pair option"
  size_lims :: "(int \<times> int) option"
  h_lims :: "(int \<times> int) option"
  w_lims :: "(int \<times> int) option"
  max_windows :: int
  max_sample_attempts :: int
  efficient_aoi_sampling :: bool

text \<open>
  \<^verbatim>\<open>GeoDataWindowConfig.update\<close> (the fields \<^verbatim>\<open>method\<close> and \<^verbatim>\<open>size\<close> are \<open>wmethod\<close>
  and \<open>wsize\<close> here, their names being taken in Isabelle).
  \<^verbatim>\<open>self.size + 1\<close> is an integer for an integer size; for a pair Python raises
  TypeError (a tuple and an integer do not add).
\<close>

definition GeoDataWindowConfig_update :: "GeoDataWindowConfig \<Rightarrow> error + GeoDataWindowConfig" where
  "GeoDataWindowConfig_update self =
     (if wmethod self = Random then
        (let has_size_lims = (size_lims self \<noteq> None);
             has_h_lims = (h_lims self \<noteq> None)
         in if \<not> (has_size_lims \<or> has_h_lims) then
              (case wsize self of
                 IntOnly k \<Rightarrow> Inr (self\<lparr>size_lims := Some (k, k + 1)\<rparr>)
               | IntPair _ _ \<Rightarrow> Inl TypeError)
            else Inr self)
      else Inr self)"

text \<open>
  \<^verbatim>\<open>GeoDataWindowConfig.validate_config\<close>: it updates the config first, and returns
  the updated config when nothing is raised.
\<close>

definition GeoDataWindowConfig_validate_config ::
  "GeoDataWindowConfig \<Rightarrow> error + GeoDataWindowConfig" where
  "GeoDataWindowConfig_validate_config self0 =
     (case GeoDataWindowConfig_update self0 of
        Inl e \<Rightarrow> Inl e
      | Inr self \<Rightarrow>
          (case wmethod self of
             Sliding \<Rightarrow>
               if stride self = None then
                 Inl (ConfigError (''stride must be specified if using '' @
                                   ''GeoDataWindowMethod.sliding''))
               else Inr self
           | Random \<Rightarrow>
               (let has_size_lims = (size_lims self \<noteq> None);
                    has_h_lims = (h_lims self \<noteq> None);
                    has_w_lims = (w_lims self \<noteq> None)
                in if has_size_lims = (has_w_lims \<or> has_h_lims) then
                     Inl (ConfigError ''Specify either size_lims or h and w lims.'')
                   else if has_h_lims \<noteq> has_w_lims then
                     Inl (ConfigError ''h_lims and w_lims must both be specified'')
                   else Inr self)))"

section \<open>GeoDataConfig\<close>

record 'sc SceneDatasetConfig =
  train_scenes :: "'sc list"
  validation_scenes :: "'sc list"
  test_scenes :: "'sc list"

datatype window_options =
    WindowOpts GeoDataWindowConfig
  | WindowOptsDict "(string \<times> GeoDataWindowConfig) list"

record 'sc GeoDataConfig = DataConfig +
  scene_dataset :: "'sc SceneDatasetConfig"
  window_opts :: window_options

definition geo_make_datasets ::
  "('sc, 's, 't, 'a) env \<Rightarrow> ('sc, 'z) GeoDataConfig_scheme \<Rightarrow> 't \<Rightarrow> 't \<Rightarrow> 't \<Rightarrow>
   error + ('a dataset \<times> 'a dataset \<times> 'a dataset)" where
  "geo_make_datasets e self train_tf val_tf test_tf =
     (let train_scenes' = map (build_scene e) (train_scenes (scene_dataset self));
          val_scenes = map (build_scene e) (validation_scenes (scene_dataset self));
          test_scenes' = map (build_scene e) (test_scenes (scene_dataset self));
          train_ds_list = map (\<lambda>s. scene_to_dataset e s train_tf) train_scenes';
          val_ds_list = map (\<lambda>s. scene_to_dataset e s val_tf) val_scenes;
          test_ds_list = map (\<lambda>s. scene_to_dataset e s test_tf) test_scenes'
      in concat_three (pad_empty train_ds_list) (pad_empty val_ds_list) (pad_empty test_ds_list))"

text \<open>\<^verbatim>\<open>GeoDataConfig.build\<close>.\<close>

definition geo_build ::
  "'g runtime \<Rightarrow> ('sc, 's, 't, 'a) env \<Rightarrow> 'g \<Rightarrow> ('sc, 'z) GeoDataConfig_scheme \<Rightarrow> bool \<Rightarrow>
   error + (('a dataset \<times> 'a dataset \<times> 'a dataset) \<times> 'g)" where
  "geo_build rt e g self overfit_mode =
     (let (base_transform, aug_transform) = get_data_transforms e;
          train_tf = (if \<not> overfit_mode then aug_transform else base_transform)
      in case geo_make_datasets e self train_tf base_transform base_transform of
           Inl err \<Rightarrow> Inl err
         | Inr (train_ds, val_ds, test_ds) \<Rightarrow>
             if train_sz self \<noteq> None \<or> train_sz_rel self \<noteq> None then
               (case random_subset_dataset rt g train_ds (train_sz self) (train_sz_rel self) of
                  Inl err \<Rightarrow> Inl err
                | Inr (train_ds', g') \<Rightarrow> Inr ((train_ds', val_ds, test_ds), g'))
             else Inr ((train_ds, val_ds, test_ds), g))"

text \<open>
  The same build with the cap called unconditionally, as the claim about
  \<^verbatim>\<open>random_subset_dataset(ds, None, None)\<close> describes it; it is compared with
  \<open>geo_build\<close> below.
\<close>

definition geo_build_unconditional ::
  "'g runtime \<Rightarrow> ('sc, 's, 't, 'a) env \<Rightarrow> 'g \<Rightarrow> ('sc, 'z) GeoDataConfig_scheme \<Rightarrow> bool \<Rightarrow>
   error + (('a dataset \<times> 'a dataset \<times> 'a dataset) \<times> 'g)" where
  "geo_build_unconditional rt e g self overfit_mode =
     (let (base_transform, aug_transform) = get_data_transforms e;
          train_tf = (if \<not> overfit_mode then aug_transform else base_transform)
      in case geo_make_datasets e self train_tf base_transform base_transform of
           Inl err \<Rightarrow> Inl err
         | Inr (train_ds, val_ds, test_ds) \<Rightarrow>
             (case random_subset_dataset rt g train_ds (train_sz self) (train_sz_rel self) of
                Inl err \<Rightarrow> Inl err
              | Inr (train_ds', g') \<Rightarrow> Inr ((train_ds', val_ds, test_ds), g')))"

section \<open>LearnerConfig\<close>

record 'z LearnerConfig =
  model :: ModelConfig
  solver :: SolverConfig
  data :: "'z DataConfig_scheme"
  predict_mode :: bool
  test_mode :: bool
  overfit_mode :: bool
  eval_train :: bool
  save_model_bundle :: bool
  log_tensorboard :: bool
  run_tensorboard :: bool
  output_uri :: "string option"

text \<open>\<^verbatim>\<open>ModelConfig.update\<close> and \<^verbatim>\<open>SolverConfig.update\<close>: both bodies are \<^verbatim>\<open>pass\<close>.\<close>

definition ModelConfig_update :: "ModelConfig \<Rightarrow> ModelConfig" where
  "ModelConfig_update self = self"

definition SolverConfig_update :: "SolverConfig \<Rightarrow> SolverConfig" where
  "SolverConfig_update self = self"

text \<open>
  \<^verbatim>\<open>LearnerConfig.update\<close>. In overfit mode with test mode the right-hand side reads
  \<^verbatim>\<open>self.solver.test_overfit_num_steps\<close>; \<^verbatim>\<open>SolverConfig\<close> has no such field, so the
  read raises AttributeError and nothing after it runs. The \<^verbatim>\<open>super().update()\<close> at
  the start is the base class's, which does nothing.
\<close>

definition LearnerConfig_update ::
  "'g runtime \<Rightarrow> 'g \<Rightarrow> 'z LearnerConfig \<Rightarrow> error + ('z LearnerConfig \<times> 'g)" where
  "LearnerConfig_update rt g self =
     (case (if overfit_mode self then
              (let self1 = self\<lparr>data := (data self)\<lparr>img_sz := img_sz (data self) div 2\<rparr>\<rparr>
               in if test_mode self1 then Inl (AttributeError ''test_overfit_num_steps'')
                  else Inr self1)
            else Inr self) of
        Inl e \<Rightarrow> Inl e
      | Inr self1 \<Rightarrow>
          (let self2 =
                 (if test_mode self1 then
                    (let a = self1\<lparr>solver := (solver self1)
                                 \<lparr>num_epochs := test_num_epochs (solver self1)\<rparr>\<rparr>;
                         b = a\<lparr>solver := (solver a)\<lparr>batch_sz := test_batch_sz (solver a)\<rparr>\<rparr>
                     in b\<lparr>data := (data b)\<lparr>num_workers := 0\<rparr>\<rparr>)
                  else self1);
               self3 = self2\<lparr>model := ModelConfig_update (model self2)\<rparr>;
               self4 = self3\<lparr>solver := SolverConfig_update (solver self3)\<rparr>
           in case DataConfig_update rt g (data self4) of
                Inl e \<Rightarrow> Inl e
              | Inr (d, g') \<Rightarrow> Inr (self4\<lparr>data := d\<rparr>, g')))"

section \<open>The classification task\<close>

record Box =
  ymin :: int
  xmin :: int
  ymax :: int
  xmax :: int

text \<open>A chip is an array of shape (height, width, channels); \<^verbatim>\<open>ravel\<close> flattens it.\<close>

type_synonym chip = "int list list list"

definition ravel :: "chip \<Rightarrow> int list" where
  "ravel c = concat (concat c)"

record RasterSource =
  get_extent :: Box
  get_chip :: "Box \<Rightarrow> chip"

record Scene =
  raster_source :: RasterSource

record Options =
  chip_size :: int

text \<open>
  \<^verbatim>\<open>Classification.get_train_windows\<close> and \<^verbatim>\<open>get_predict_windows\<close>. The method
  \<^verbatim>\<open>Box.get_windows\<close> they call is in \<^verbatim>\<open>rastervision.core.box\<close>, not among the
  sources, and is the parameter \<open>get_windows\<close>. \<^verbatim>\<open>np.sum\<close> over the flattened chip
  is the sum of its values.
\<close>

fun train_windows_loop :: "Scene \<Rightarrow> Box list \<Rightarrow> Box list \<Rightarrow> Box list" where
  "train_windows_loop scene [] windows = windows"
| "train_windows_loop scene (window # rest) windows =
     (let c = get_chip (raster_source scene) window
      in if sum_list (ravel c) > 0 then train_windows_loop scene rest (windows @ [window])
         else train_windows_loop scene rest windows)"

definition get_train_windows ::
  "(Box \<Rightarrow> int \<Rightarrow> int \<Rightarrow> Box list) \<Rightarrow> Scene \<Rightarrow> Options \<Rightarrow> Box list" where
  "get_train_windows get_windows scene options =
     (let extent = get_extent (raster_source scene);
          chip_size' = chip_size options;
          stride' = chip_size'
      in train_windows_loop scene (get_windows extent chip_size' stride') [])"

definition get_predict_windows ::
  "(Box \<Rightarrow> int \<Rightarrow> int \<Rightarrow> Box list) \<Rightarrow> Box \<Rightarrow> Options \<Rightarrow> Box list" where
  "get_predict_windows get_windows extent options =
     (let chip_size' = chip_size options;
          stride' = chip_size'
      in get_windows extent chip_size' stride')"

text \<open>
  Modelled from the spec: \<^verbatim>\<open>Box.get_windows\<close> is not among the sources. The spec says
  of its result, for a stride equal to the chip size: every non-overlapping grid cell of
  that size across the raster extent. \<open>grid_windows\<close> lays square cells of side
  \<open>chip_size\<close> row by row from the extent's upper left corner, a stride apart, as long
  as a cell starts inside the extent. It is the instance of the parameter in the examples.
\<close>

definition range_step :: "int \<Rightarrow> int \<Rightarrow> int \<Rightarrow> int list" where
  "range_step start stop step =
     (if 0 < step then
        map (\<lambda>i. start + int i * step) [0..<nat ((stop - start + step - 1) div step)]
      else [])"

definition make_square :: "int \<Rightarrow> int \<Rightarrow> int \<Rightarrow> Box" where
  "make_square y x sz = \<lparr>ymin = y, xmin = x, ymax = y + sz, xmax = x + sz\<rparr>"

definition grid_windows :: "Box \<Rightarrow> int \<Rightarrow> int \<Rightarrow> Box list" where
  "grid_windows extent chip_size' stride' =
     concat (map (\<lambda>row_start.
               map (\<lambda>col_start. make_square row_start col_start chip_size')
                 (range_step (xmin extent) (xmax extent) stride'))
             (range_step (ymin extent) (ymax extent) stride'))"

text \<open>Two boxes overlap when they share a pixel.\<close>

definition overlap :: "Box \<Rightarrow> Box \<Rightarrow> bool" where
  "overlap a b \<longleftrightarrow>
     ymin a < ymax b \<and> ymin b < ymax a \<and> xmin a < xmax b \<and> xmin b < xmax a"

definition in_box :: "int \<times> int \<Rightarrow> Box \<Rightarrow> bool" where
  "in_box p b \<longleftrightarrow> ymin b \<le> fst p \<and> fst p < ymax b \<and> xmin b \<le> snd p \<and> snd p < xmax b"

section \<open>Example inputs\<close>

text \<open>
  A small runtime: the generator's state is a number, seeding stores the seed, and a
  shuffle reverses the list when the state is even and moves to the next state.
\<close>

definition toy_runtime :: "nat runtime" where
  "toy_runtime =
     \<lparr>seed = (\<lambda>a. nat a),
      shuffle = (\<lambda>g xs. (if even g then rev xs else xs, Suc g)),
      color_to_triple = (\<lambda>g. (ColorTriple (int g) 0 0, Suc g)),
      fround = (\<lambda>x. x)\<rparr>"

text \<open>
  A small environment: a URI resolves to itself, every path is a directory, the base
  transform is \<open>False\<close> and the augmenting one \<open>True\<close>, the directory \<open>a/train\<close>
  holds three items and \<open>b/train\<close> two, and a scene is the list of its items.
\<close>

definition toy_env :: "(nat list, nat list, bool, nat) env" where
  "toy_env =
     \<lparr>get_data_dirs = (\<lambda>u. case u of
                               None \<Rightarrow> Inl FileNotFoundError
                             | Some (UriStr d) \<Rightarrow> Inr [d]
                             | Some (UriList ds) \<Rightarrow> Inr ds),
      isdir = (\<lambda>_. True),
      get_data_transforms = (False, True),
      dir_to_dataset = (\<lambda>d tf. if d = ''a/train'' then Data [1, 2, 3]
                                else if d = ''b/train'' then Data [4, 5] else Data []),
      build_scene = (\<lambda>sc. sc),
      scene_to_dataset = (\<lambda>s tf. Data s)\<rparr>"

definition example_plot_options :: PlotOptions where
  "example_plot_options = \<lparr>transform = None, channel_display_groups = None\<rparr>"

definition example_image_data :: ImageDataConfig where
  "example_image_data =
     \<lparr>class_names = [''building'', ''background''], class_colors = None,
      img_channels = Some 4, img_sz = 256, train_sz = Some 2, train_sz_rel = None,
      num_workers = 4, augmentors = [''RandomRotate90'', ''HorizontalFlip'', ''VerticalFlip''],
      base_transform = None, aug_transform = None,
      plot_options = Some example_plot_options, preview_batch_limit = None,
      data_format = None, uri = Some (UriStr ''a''), group_uris = Some [UriStr ''a'', UriStr ''b''],
      group_train_sz = Some (One 1), group_train_sz_rel = None\<rparr>"

definition example_geo_data :: "(nat list) GeoDataConfig" where
  "example_geo_data =
     \<lparr>class_names = [''building'', ''background''], class_colors = None,
      img_channels = Some 4, img_sz = 256, train_sz = None, train_sz_rel = None,
      num_workers = 4, augmentors = [''RandomRotate90'', ''HorizontalFlip'', ''VerticalFlip''],
      base_transform = None, aug_transform = None,
      plot_options = Some example_plot_options, preview_batch_limit = None,
      scene_dataset = \<lparr>train_scenes = [[1, 2, 3], [4, 5]], validation_scenes = [[6]],
                       test_scenes = []\<rparr>,
      window_opts = WindowOpts
        \<lparr>wmethod = Sliding, wsize = IntOnly 256, stride = Some (IntOnly 256), padding = None,
         size_lims = None, h_lims = None, w_lims = None, max_windows = 10000,
         max_sample_attempts = 100, efficient_aoi_sampling = True\<rparr>\<rparr>"

definition example_model :: ModelConfig where
  "example_model =
     \<lparr>backbone = resnet18, pretrained = True, init_weights = None, load_strict = True,
      external_def = None\<rparr>"

definition example_data :: DataConfig where
  "example_data =
     \<lparr>class_names = [''building'', ''background''], class_colors = None,
      img_channels = Some 4, img_sz = 256, train_sz = None, train_sz_rel = None,
      num_workers = 4, augmentors = [''RandomRotate90'', ''HorizontalFlip'', ''VerticalFlip''],
      base_transform = None, aug_transform = None,
      plot_options = Some example_plot_options, preview_batch_limit = None\<rparr>"

definition example_learner :: "unit LearnerConfig" where
  "example_learner =
     \<lparr>model = example_model, solver = default_solver, data = example_data,
      predict_mode = False, test_mode = True, overfit_mode = True, eval_train = False,
      save_model_bundle = True, log_tensorboard = True, run_tensorboard = False,
      output_uri = None\<rparr>"

definition example_window :: GeoDataWindowConfig where
  "example_window =
     \<lparr>wmethod = Random, wsize = IntOnly 256, stride = None, padding = None,
      size_lims = None, h_lims = None, w_lims = None, max_windows = 10000,
      max_sample_attempts = 100, efficient_aoi_sampling = True\<rparr>"

text \<open>
  A scene of two rows and four columns with one channel: the left cell of the 2 by 2 grid
  sums to 4, the right one to \<open>- 1\<close>.
\<close>

definition example_scene :: Scene where
  "example_scene =
     \<lparr>raster_source =
        \<lparr>get_extent = \<lparr>ymin = 0, xmin = 0, ymax = 2, xmax = 4\<rparr>,
         get_chip = (\<lambda>w. if xmin w = 0 then [[[1], [1]], [[1], [1]]]
                          else [[[0], [0]], [[0], [- 1]]])\<rparr>\<rparr>"

section \<open>The backbone upgrader\<close>

lemma length_mapping: "length mapping = 35"
  by (simp add: mapping_def)

lemma keys_mapping: "map fst mapping = [1..35]"
  by (simp add: mapping_def upto_rec1)

lemma distinct_keys_mapping: "distinct (map fst mapping)"
  by (simp add: keys_mapping)

lemma names_mapping: "map snd mapping = map Backbone_name Backbone_members"
  by (simp add: mapping_def Backbone_members_def)

lemma int_to_str_entry: "int_to_str (PInt i) = Inr s \<longleftrightarrow> (i, s) \<in> set mapping"
proof -
  have "map_of mapping i = Some s \<longleftrightarrow> (i, s) \<in> set mapping"
    by (rule map_of_eq_Some_iff[OF distinct_keys_mapping])
  then show ?thesis
    by (cases "map_of mapping i") (simp_all add: dict_get_def)
qed

lemma int_to_str_missing: "int_to_str (PInt i) = Inl KeyError \<longleftrightarrow> \<not> (1 \<le> i \<and> i \<le> 35)"
proof -
  have "map_of mapping i = None \<longleftrightarrow> i \<notin> set (map fst mapping)"
    by (simp add: map_of_eq_None_iff)
  also have "\<dots> \<longleftrightarrow> \<not> (1 \<le> i \<and> i \<le> 35)"
    unfolding keys_mapping by simp
  finally show ?thesis
    by (auto simp: dict_get_def split: option.splits)
qed

lemma dict_set_get:
  "dict_get (dict_set d k v) k' = (if k' = k then Inr v else dict_get d k')"
  by (simp add: dict_get_def dict_set_def update_conv')

text \<open>
  Claim C7. The upgrade rule maps a stored integer backbone id to its string name through
  the table of \<^verbatim>\<open>Backbone.int_to_str\<close>. The table has exactly 35 entries, is indexed from
  1 (its keys are 1, 2, ..., 35 in this order), and its i-th entry is the name of the i-th
  member of the enum. For every entry (i, s) of the table, \<^verbatim>\<open>int_to_str(i)\<close> is \<open>s\<close>, and
  the upgrader, applied at version 0 to a config dict whose \<open>backbone\<close> is the integer
  \<open>i\<close>, returns the dict with \<open>backbone\<close> set to the string \<open>s\<close> and every other key as
  it was; an integer outside 1..35 raises KeyError; at any other version the dict is
  returned as it is. In particular (13, \<open>resnet18\<close>) is an entry, so at version 0 a
  stored 13 becomes \<open>resnet18\<close>.
\<close>

theorem backbone_upgrade:
  "length mapping = 35 \<and> map fst mapping = [1..35] \<and>
   map snd mapping = map Backbone_name Backbone_members \<and>
   (int_to_str (PInt i) = Inr s \<longleftrightarrow> (i, s) \<in> set mapping) \<and>
   (int_to_str (PInt i) = Inl KeyError \<longleftrightarrow> \<not> (1 \<le> i \<and> i \<le> 35)) \<and>
   (dict_get cfg_dict ''backbone'' = Inr (PInt i) \<and> (i, s) \<in> set mapping \<longrightarrow>
      model_config_upgrader cfg_dict 0 = Inr (dict_set cfg_dict ''backbone'' (PStr s)) \<and>
      dict_get (dict_set cfg_dict ''backbone'' (PStr s)) ''backbone'' = Inr (PStr s) \<and>
      (\<forall>k. k \<noteq> ''backbone'' \<longrightarrow>
         dict_get (dict_set cfg_dict ''backbone'' (PStr s)) k = dict_get cfg_dict k)) \<and>
   (dict_get cfg_dict ''backbone'' = Inr (PInt i) \<and> \<not> (1 \<le> i \<and> i \<le> 35) \<longrightarrow>
      model_config_upgrader cfg_dict 0 = Inl KeyError) \<and>
   (version \<noteq> 0 \<longrightarrow> model_config_upgrader cfg_dict version = Inr cfg_dict) \<and>
   (13, ''resnet18'') \<in> set mapping \<and>
   (dict_get cfg_dict ''backbone'' = Inr (PInt 13) \<longrightarrow>
      model_config_upgrader cfg_dict 0
        = Inr (dict_set cfg_dict ''backbone'' (PStr ''resnet18'')))"
proof -
  have rule: "model_config_upgrader cfg_dict 0 = Inr (dict_set cfg_dict ''backbone'' (PStr t))"
    if "dict_get cfg_dict ''backbone'' = Inr (PInt j)" "(j, t) \<in> set mapping" for j t
  proof -
    from that(2) have "int_to_str (PInt j) = Inr t"
      using int_to_str_entry[of j t] by blast
    with that(1) show ?thesis by (simp add: model_config_upgrader_def)
  qed
  have missing: "model_config_upgrader cfg_dict 0 = Inl KeyError"
    if "dict_get cfg_dict ''backbone'' = Inr (PInt i)" "\<not> (1 \<le> i \<and> i \<le> 35)"
  proof -
    from that(2) have "int_to_str (PInt i) = Inl KeyError"
      using int_to_str_missing[of i] by blast
    with that(1) show ?thesis by (simp add: model_config_upgrader_def)
  qed
  have e13: "(13, ''resnet18'') \<in> set mapping" by (simp add: mapping_def)
  show ?thesis
    apply (intro conjI)
    subgoal by (rule length_mapping)
    subgoal by (rule keys_mapping)
    subgoal by (rule names_mapping)
    subgoal by (rule int_to_str_entry)
    subgoal by (rule int_to_str_missing)
    subgoal using rule[of i s] by (simp add: dict_set_get)
    subgoal using missing by blast
    subgoal by (simp add: model_config_upgrader_def)
    subgoal by (rule e13)
    subgoal using rule[OF _ e13] by simp
    done
qed

theorem backbone_upgrade_witness:
  "dict_get [(''backbone'', PInt 13), (''pretrained'', PBool True)] ''backbone'' = Inr (PInt 13) \<and>
   (13, ''resnet18'') \<in> set mapping \<and>
   model_config_upgrader [(''backbone'', PInt 13), (''pretrained'', PBool True)] 0
     = Inr [(''backbone'', PStr ''resnet18''), (''pretrained'', PBool True)] \<and>
   dict_get [(''pretrained'', PBool True), (''backbone'', PInt 35)] ''backbone'' = Inr (PInt 35) \<and>
   (35, ''vgg19'') \<in> set mapping \<and>
   model_config_upgrader [(''pretrained'', PBool True), (''backbone'', PInt 35)] 0
     = Inr [(''pretrained'', PBool True), (''backbone'', PStr ''vgg19'')] \<and>
   dict_get [(''backbone'', PInt 36)] ''backbone'' = Inr (PInt 36) \<and>
   model_config_upgrader [(''backbone'', PInt 36)] 0 = Inl KeyError \<and>
   model_config_upgrader [(''backbone'', PStr ''resnet50'')] 3 = Inr [(''backbone'', PStr ''resnet50'')]"
proof -
  have m35: "(35, ''vgg19'') \<in> set mapping" by (simp add: mapping_def)
  note A = backbone_upgrade
      [where cfg_dict = "[(''backbone'', PInt 13), (''pretrained'', PBool True)]"
        and i = 13 and s = "''resnet18''"]
  note B = backbone_upgrade
      [where cfg_dict = "[(''pretrained'', PBool True), (''backbone'', PInt 35)]"
        and i = 35 and s = "''vgg19''"]
  note C = backbone_upgrade [where cfg_dict = "[(''backbone'', PInt 36)]" and i = 36]
  note D = backbone_upgrade
      [where cfg_dict = "[(''backbone'', PStr ''resnet50'')]" and version = 3]
  have g13: "dict_get [(''backbone'', PInt 13), (''pretrained'', PBool True)] ''backbone''
      = Inr (PInt 13)"
    by (simp add: dict_get_def)
  have g35: "dict_get [(''pretrained'', PBool True), (''backbone'', PInt 35)] ''backbone''
      = Inr (PInt 35)"
    by (simp add: dict_get_def)
  have g36: "dict_get [(''backbone'', PInt 36)] ''backbone'' = Inr (PInt 36)"
    by (simp add: dict_get_def)
  have e13: "(13, ''resnet18'') \<in> set mapping"
    using A by simp
  have p13: "model_config_upgrader [(''backbone'', PInt 13), (''pretrained'', PBool True)] 0
     = Inr [(''backbone'', PStr ''resnet18''), (''pretrained'', PBool True)]"
    using A g13 e13 by (simp add: dict_set_def)
  have p35: "model_config_upgrader [(''pretrained'', PBool True), (''backbone'', PInt 35)] 0
     = Inr [(''pretrained'', PBool True), (''backbone'', PStr ''vgg19'')]"
    using B g35 m35 by (simp add: dict_set_def)
  have p36: "model_config_upgrader [(''backbone'', PInt 36)] 0 = Inl KeyError"
    using C g36 by simp
  have p3: "model_config_upgrader [(''backbone'', PStr ''resnet50'')] 3
      = Inr [(''backbone'', PStr ''resnet50'')]"
    using D by simp
  show ?thesis
    using g13 e13 p13 g35 m35 p35 g36 p36 p3 by (intro conjI)
qed

section \<open>Validation of the solver\<close>

text \<open>
  Claim C4. For any \<^verbatim>\<open>SolverConfig\<close>, \<^verbatim>\<open>validate_config\<close> raises a configuration error
  when \<^verbatim>\<open>external_loss_def\<close> is set together with \<^verbatim>\<open>ignore_last_class=True\<close>, and
  raises when it is set together with class weights; it does not raise when
  \<^verbatim>\<open>external_loss_def\<close> is set together with \<^verbatim>\<open>ignore_last_class='force'\<close>: with
  \<^verbatim>\<open>'force'\<close> and an external loss the only error left is the one of the class weights,
  so validation passes exactly when \<^verbatim>\<open>class_loss_weights\<close> is \<open>None\<close>, and the value
  \<^verbatim>\<open>'force'\<close> is validated as \<open>False\<close> is.
\<close>

theorem solver_validate_config_external_loss:
  "(external_loss_def self \<noteq> None \<and> ignore_last_class self = IgnoreBool True \<longrightarrow>
      (\<exists>msg. solver_validate_config self = Inl (ConfigError msg))) \<and>
   (external_loss_def self \<noteq> None \<and> class_loss_weights self \<noteq> None \<longrightarrow>
      (\<exists>msg. solver_validate_config self = Inl (ConfigError msg))) \<and>
   (external_loss_def self \<noteq> None \<and> ignore_last_class self = Force \<and>
    class_loss_weights self = None \<longrightarrow> solver_validate_config self = Inr ()) \<and>
   (external_loss_def self \<noteq> None \<and> ignore_last_class self = Force \<longrightarrow>
      (solver_validate_config self = Inr () \<longleftrightarrow> class_loss_weights self = None) \<and>
      solver_validate_config self
        = solver_validate_config (self\<lparr>ignore_last_class := IgnoreBool False\<rparr>))"
  by (simp add: solver_validate_config_def Let_def)

theorem solver_validate_config_external_loss_witness:
  "(\<exists>msg. solver_validate_config
      (default_solver\<lparr>ignore_last_class := IgnoreBool True,
         external_loss_def := Some example_external\<rparr>) = Inl (ConfigError msg)) \<and>
   (\<exists>msg. solver_validate_config
      (default_solver\<lparr>class_loss_weights := Some [1, 2],
         external_loss_def := Some example_external\<rparr>) = Inl (ConfigError msg)) \<and>
   solver_validate_config
      (default_solver\<lparr>ignore_last_class := Force,
         external_loss_def := Some example_external\<rparr>) = Inr ()"
  using solver_validate_config_external_loss [of "default_solver\<lparr>ignore_last_class := IgnoreBool True,
         external_loss_def := Some example_external\<rparr>"]
    solver_validate_config_external_loss [of "default_solver\<lparr>class_loss_weights := Some [1, 2],
         external_loss_def := Some example_external\<rparr>"]
    solver_validate_config_external_loss [of "default_solver\<lparr>ignore_last_class := Force,
         external_loss_def := Some example_external\<rparr>"]
  by (simp add: default_solver_def)

section \<open>Channel display groups\<close>

lemma update_fresh: "k \<notin> fst ` set al \<Longrightarrow> AList.update k v al = al @ [(k, v)]"
  by (induction al) auto

lemma groups_of_dict_aux:
  "distinct (map fst (acc @ d)) \<Longrightarrow>
   foldl (\<lambda>d (k, v). dict_set d k v) acc d = acc @ d"
proof (induction d arbitrary: acc)
  case Nil
  then show ?case by simp
next
  case (Cons kv d)
  obtain k v where kv: "kv = (k, v)" by (cases kv)
  from Cons.prems have fresh: "k \<notin> fst ` set acc" by (auto simp: kv)
  from Cons.prems have "distinct (map fst ((acc @ [(k, v)]) @ d))" by (simp add: kv)
  from Cons.IH[OF this] show ?case
    by (simp add: kv dict_set_def update_fresh[OF fresh])
qed

lemma groups_of_dict_distinct: "distinct (map fst d) \<Longrightarrow> groups_of_dict d = d"
  using groups_of_dict_aux[of "[]" d] by (simp add: groups_of_dict_def)

lemma check_groups_ok:
  "check_groups n gs = Inr () \<longleftrightarrow>
   (\<forall>(k, v) \<in> set gs. 1 \<le> length v \<and> length v \<le> 3 \<and> (\<forall>i \<in> set v. 0 \<le> i \<and> i < n))"
  by (induction n gs rule: check_groups.induct) (auto simp: list_all_iff Suc_le_eq)

lemma check_groups_error:
  "check_groups n gs = Inl e \<Longrightarrow>
   \<exists>k v. (k, v) \<in> set gs \<and>
     ((\<not> (0 < length v \<and> length v \<le> 3) \<and>
       e = ConfigError (''channel_display_groups['' @ k @ '']: len(group) must be 1, 2, or 3'')) \<or>
      (\<not> (\<forall>i \<in> set v. 0 \<le> i \<and> i < n) \<and>
       e = ConfigError (''Invalid channel indices in channel_display_groups['' @ k @ ''].'')))"
proof (induction n gs rule: check_groups.induct)
  case (1 n)
  then show ?case by simp
next
  case (2 n k v rest)
  show ?case
  proof (cases "0 < length v \<and> length v \<le> 3")
    case False
    with 2 show ?thesis by (intro exI[of _ k] exI[of _ v]) auto
  next
    case len: True
    show ?thesis
    proof (cases "list_all (\<lambda>i. 0 \<le> i \<and> i < n) v")
      case False
      with 2 len show ?thesis by (intro exI[of _ k] exI[of _ v]) (auto simp: list_all_iff)
    next
      case True
      with 2 len obtain k' v' where "(k', v') \<in> set rest"
        "((\<not> (0 < length v' \<and> length v' \<le> 3) \<and>
       e = ConfigError (''channel_display_groups['' @ k' @ '']: len(group) must be 1, 2, or 3'')) \<or>
      (\<not> (\<forall>i \<in> set v'. 0 \<le> i \<and> i < n) \<and>
       e = ConfigError (''Invalid channel indices in channel_display_groups['' @ k' @ ''].'')))"
        by auto
      then show ?thesis by (intro exI[of _ k'] exI[of _ v']) auto
    qed
  qed
qed

lemma set_dict_set: "set (dict_set d k v) \<subseteq> insert (k, v) (set d)"
  unfolding dict_set_def by (induction d) auto

lemma keys_dict_set: "fst ` set (dict_set d k v) = insert k (fst ` set d)"
  unfolding dict_set_def by (simp add: dom_update)

lemma groups_of_seq_aux:
  "set (foldl (\<lambda>d chs. dict_set d (channels_label chs) chs) acc gs)
     \<subseteq> set acc \<union> (\<lambda>chs. (channels_label chs, chs)) ` set gs \<and>
   fst ` set (foldl (\<lambda>d chs. dict_set d (channels_label chs) chs) acc gs)
     = fst ` set acc \<union> channels_label ` set gs"
proof (induction gs arbitrary: acc)
  case Nil
  then show ?case by simp
next
  case (Cons chs gs)
  have s: "set (dict_set acc (channels_label chs) chs) \<subseteq> insert (channels_label chs, chs) (set acc)"
    by (rule set_dict_set)
  from Cons.IH[of "dict_set acc (channels_label chs) chs"] s
  show ?case by (auto simp: keys_dict_set)
qed

lemma groups_of_seq_entries:
  "set (groups_of_seq gs) \<subseteq> (\<lambda>chs. (channels_label chs, chs)) ` set gs"
  "fst ` set (groups_of_seq gs) = channels_label ` set gs"
  using groups_of_seq_aux[of "[]" gs] by (auto simp: groups_of_seq_def)

lemma default_group_ok:
  assumes "0 < n"
  shows "check_groups n [(''Input'', py_range (min 3 n))] = Inr ()"
proof -
  have l: "length (py_range (min 3 n)) = nat (min 3 n)"
    by (simp add: py_range_def)
  have s: "set (py_range (min 3 n)) = {0..min 3 n - 1}"
    by (simp add: py_range_def)
  have "1 \<le> length (py_range (min 3 n)) \<and> length (py_range (min 3 n)) \<le> 3"
    using assms unfolding l by (auto simp: min_def)
  moreover have "\<forall>i \<in> set (py_range (min 3 n)). 0 \<le> i \<and> i < n"
    unfolding s by auto
  ultimately show ?thesis
    by (subst check_groups_ok) simp
qed

lemma default_groups:
  "channel_display_groups self = None \<and> 0 < n \<longrightarrow>
     validate_and_update_channel_display_groups self n = Inr [(''Input'', py_range (min 3 n))]"
  by (simp add: validate_and_update_channel_display_groups_def checked_groups_def
      default_group_ok Let_def del: check_groups.simps)

lemma py_range_3: "py_range 3 = [0, 1, 2]"
  by (simp add: py_range_def upto_rec1)

text \<open>
  Claim C5. \<^verbatim>\<open>validate_and_update_channel_display_groups(img_channels)\<close>, for a
  positive number of channels: when the groups are unset the result is the single group
  \<open>Input\<close> with the channels 0, ..., min(3, img_channels) - 1. A non-empty list of groups
  is converted to the mapping that holds every group under its generated label
  \<^verbatim>\<open>Channels: [...]\<close>; a non-empty dict is returned with its entries as they are. The
  mapping is returned exactly when every group in it has between 1 and 3 channel indices
  and every index \<open>i\<close> satisfies \<open>0 \<le> i < img_channels\<close>; otherwise a configuration
  error is raised whose message names a group that breaks one of the two rules.
\<close>

theorem channel_display_groups_validated:
  "(channel_display_groups self = None \<and> 0 < n \<longrightarrow>
      validate_and_update_channel_display_groups self n
        = Inr [(''Input'', py_range (min 3 n))]) \<and>
   (channel_display_groups self = Some (GroupsSeq gs) \<and> gs \<noteq> [] \<longrightarrow>
      validate_and_update_channel_display_groups self n = checked_groups n (groups_of_seq gs) \<and>
      set (groups_of_seq gs) \<subseteq> (\<lambda>chs. (channels_label chs, chs)) ` set gs \<and>
      fst ` set (groups_of_seq gs) = channels_label ` set gs) \<and>
   (channel_display_groups self = Some (GroupsDict d) \<and> d \<noteq> [] \<and> distinct (map fst d) \<longrightarrow>
      validate_and_update_channel_display_groups self n = checked_groups n d) \<and>
   (checked_groups n m = Inr m' \<longleftrightarrow>
      m' = m \<and> (\<forall>(k, v) \<in> set m. 1 \<le> length v \<and> length v \<le> 3 \<and> (\<forall>i \<in> set v. 0 \<le> i \<and> i < n))) \<and>
   (validate_and_update_channel_display_groups self n = Inr m \<longrightarrow>
      (\<forall>(k, v) \<in> set m. 1 \<le> length v \<and> length v \<le> 3 \<and> (\<forall>i \<in> set v. 0 \<le> i \<and> i < n))) \<and>
   (checked_groups n m = Inl e \<longrightarrow>
      (\<exists>k v. (k, v) \<in> set m \<and>
         ((\<not> (1 \<le> length v \<and> length v \<le> 3) \<and>
           e = ConfigError (''channel_display_groups['' @ k @ '']: len(group) must be 1, 2, or 3'')) \<or>
          (\<not> (\<forall>i \<in> set v. 0 \<le> i \<and> i < n) \<and>
           e = ConfigError (''Invalid channel indices in channel_display_groups['' @ k @ ''].'')))))"
proof -
  have ok: "checked_groups n m = Inr m' \<longleftrightarrow>
      m' = m \<and> (\<forall>(k, v) \<in> set m. 1 \<le> length v \<and> length v \<le> 3 \<and> (\<forall>i \<in> set v. 0 \<le> i \<and> i < n))"
    for m m'
  proof (cases "check_groups n m")
    case (Inl a)
    then show ?thesis
      using check_groups_ok[of n m] by (auto simp: checked_groups_def)
  next
    case (Inr u)
    then have "check_groups n m = Inr ()" by simp
    then show ?thesis
      using check_groups_ok[of n m] by (auto simp: checked_groups_def)
  qed
  have b: "channel_display_groups self = Some (GroupsSeq gs) \<and> gs \<noteq> [] \<longrightarrow>
      validate_and_update_channel_display_groups self n = checked_groups n (groups_of_seq gs)"
    by (simp add: validate_and_update_channel_display_groups_def len_groups_def)
  have c: "channel_display_groups self = Some (GroupsDict d) \<and> d \<noteq> [] \<and> distinct (map fst d) \<longrightarrow>
      validate_and_update_channel_display_groups self n = checked_groups n d"
    by (simp add: validate_and_update_channel_display_groups_def len_groups_def
        groups_of_dict_distinct)
  have d: "validate_and_update_channel_display_groups self n = Inr m \<longrightarrow>
      (\<forall>(k, v) \<in> set m. 1 \<le> length v \<and> length v \<le> 3 \<and> (\<forall>i \<in> set v. 0 \<le> i \<and> i < n))"
    using ok
    by (simp add: validate_and_update_channel_display_groups_def Let_def
          split: option.splits if_splits channel_groups.splits)
  have e: "checked_groups n m = Inl e \<longrightarrow>
      (\<exists>k v. (k, v) \<in> set m \<and>
         ((\<not> (1 \<le> length v \<and> length v \<le> 3) \<and>
           e = ConfigError (''channel_display_groups['' @ k @ '']: len(group) must be 1, 2, or 3'')) \<or>
          (\<not> (\<forall>i \<in> set v. 0 \<le> i \<and> i < n) \<and>
           e = ConfigError (''Invalid channel indices in channel_display_groups['' @ k @ ''].''))))"
  proof
    assume "checked_groups n m = Inl e"
    then have "check_groups n m = Inl e"
      by (simp add: checked_groups_def split: sum.splits)
    from check_groups_error[OF this] show "\<exists>k v. (k, v) \<in> set m \<and>
         ((\<not> (1 \<le> length v \<and> length v \<le> 3) \<and>
           e = ConfigError (''channel_display_groups['' @ k @ '']: len(group) must be 1, 2, or 3'')) \<or>
          (\<not> (\<forall>i \<in> set v. 0 \<le> i \<and> i < n) \<and>
           e = ConfigError (''Invalid channel indices in channel_display_groups['' @ k @ ''].'')))"
      by (simp add: Suc_le_eq)
  qed
  note f = groups_of_seq_entries[of gs]
  show ?thesis
    apply (intro conjI)
    subgoal by (rule default_groups)
    subgoal using b f by simp
    subgoal by (rule c)
    subgoal by (rule ok)
    subgoal by (rule d)
    subgoal by (rule e)
    done
qed

theorem channel_display_groups_validated_witness:
  "validate_and_update_channel_display_groups
      \<lparr>transform = None, channel_display_groups = None\<rparr> 4 = Inr [(''Input'', [0, 1, 2])] \<and>
   validate_and_update_channel_display_groups
      \<lparr>transform = None, channel_display_groups = Some (GroupsSeq [[0, 1, 2], [3]])\<rparr> 4
     = Inr [(''Channels: [0, 1, 2]'', [0, 1, 2]), (''Channels: [3]'', [3])] \<and>
   validate_and_update_channel_display_groups
      \<lparr>transform = None,
       channel_display_groups = Some (GroupsDict [(''RGB'', [0, 1, 2]), (''IR'', [3])])\<rparr> 4
     = Inr [(''RGB'', [0, 1, 2]), (''IR'', [3])] \<and>
   validate_and_update_channel_display_groups
      \<lparr>transform = None, channel_display_groups = Some (GroupsSeq [[0, 1, 2], [4]])\<rparr> 4
     = Inl (ConfigError ''Invalid channel indices in channel_display_groups[Channels: [4]].'')"
proof -
  have gs1: "groups_of_seq [[0, 1, 2], [3]]
      = [(''Channels: [0, 1, 2]'', [0, 1, 2]), (''Channels: [3]'', [3])]"
    by (simp add: groups_of_seq_def dict_set_def channels_label_def str_list_def str_int_def
        str_nat.simps digit_char_def)
  have gs2: "groups_of_seq [[0, 1, 2], [4]]
      = [(''Channels: [0, 1, 2]'', [0, 1, 2]), (''Channels: [4]'', [4])]"
    by (simp add: groups_of_seq_def dict_set_def channels_label_def str_list_def str_int_def
        str_nat.simps digit_char_def)
  have c1: "checked_groups 4 [(''Channels: [0, 1, 2]'', [0, 1, 2]), (''Channels: [3]'', [3])]
     = Inr [(''Channels: [0, 1, 2]'', [0, 1, 2]), (''Channels: [3]'', [3])]"
    by (simp add: checked_groups_def)
  have c2: "checked_groups 4 [(''RGB'', [0, 1, 2]), (''IR'', [3])]
     = Inr [(''RGB'', [0, 1, 2]), (''IR'', [3])]"
    by (simp add: checked_groups_def)
  have c3: "checked_groups 4 [(''Channels: [0, 1, 2]'', [0, 1, 2]), (''Channels: [4]'', [4])]
     = Inl (ConfigError ''Invalid channel indices in channel_display_groups[Channels: [4]].'')"
    by (simp add: checked_groups_def)
  have p1: "validate_and_update_channel_display_groups
      \<lparr>transform = None, channel_display_groups = None\<rparr> 4 = Inr [(''Input'', [0, 1, 2])]"
    using channel_display_groups_validated
        [where self = "\<lparr>transform = None, channel_display_groups = None\<rparr>" and n = 4,
        THEN conjunct1]
    by (simp add: py_range_3)
  have p2: "validate_and_update_channel_display_groups
      \<lparr>transform = None, channel_display_groups = Some (GroupsSeq [[0, 1, 2], [3]])\<rparr> 4
     = Inr [(''Channels: [0, 1, 2]'', [0, 1, 2]), (''Channels: [3]'', [3])]"
    using channel_display_groups_validated
        [where self = "\<lparr>transform = None,
              channel_display_groups = Some (GroupsSeq [[0, 1, 2], [3]])\<rparr>"
            and n = 4 and gs = "[[0, 1, 2], [3]]", THEN conjunct2, THEN conjunct1]
    by (simp add: gs1 c1)
  have p3: "validate_and_update_channel_display_groups
      \<lparr>transform = None,
       channel_display_groups = Some (GroupsDict [(''RGB'', [0, 1, 2]), (''IR'', [3])])\<rparr> 4
     = Inr [(''RGB'', [0, 1, 2]), (''IR'', [3])]"
    using channel_display_groups_validated
        [where self = "\<lparr>transform = None,
              channel_display_groups = Some (GroupsDict [(''RGB'', [0, 1, 2]), (''IR'', [3])])\<rparr>"
            and n = 4 and d = "[(''RGB'', [0, 1, 2]), (''IR'', [3])]",
            THEN conjunct2, THEN conjunct2, THEN conjunct1]
    by (simp add: c2)
  have p4: "validate_and_update_channel_display_groups
      \<lparr>transform = None, channel_display_groups = Some (GroupsSeq [[0, 1, 2], [4]])\<rparr> 4
     = Inl (ConfigError ''Invalid channel indices in channel_display_groups[Channels: [4]].'')"
    using channel_display_groups_validated
        [where self = "\<lparr>transform = None,
              channel_display_groups = Some (GroupsSeq [[0, 1, 2], [4]])\<rparr>"
            and n = 4 and gs = "[[0, 1, 2], [4]]", THEN conjunct2, THEN conjunct1]
    by (simp add: gs2 c3)
  show ?thesis
    using p1 p2 p3 p4 by simp
qed

text \<open>
  Claim C9. When \<^verbatim>\<open>channel_display_groups\<close> is set to an empty collection (an empty list
  or tuple, or an empty dict), \<^verbatim>\<open>validate_and_update_channel_display_groups\<close> raises a
  configuration error and does not fall back to the default; the default group \<open>Input\<close>
  is what an unset value gives (for a positive number of channels), and for a value that
  is set a returned mapping is always the conversion of the groups given.
\<close>

theorem empty_channel_display_groups_rejected:
  "(channel_display_groups self = Some g \<and> len_groups g = 0 \<longrightarrow>
      validate_and_update_channel_display_groups self n
        = Inl (ConfigError ''channel_display_groups cannot be empty. Set to None instead.'')) \<and>
   len_groups (GroupsSeq []) = 0 \<and> len_groups (GroupsDict []) = 0 \<and>
   (channel_display_groups self = None \<and> 0 < n \<longrightarrow>
      validate_and_update_channel_display_groups self n
        = Inr [(''Input'', py_range (min 3 n))]) \<and>
   (channel_display_groups self = Some g \<and>
    validate_and_update_channel_display_groups self n = Inr m \<longrightarrow>
      len_groups g \<noteq> 0 \<and>
      m = (case g of GroupsSeq gs \<Rightarrow> groups_of_seq gs | GroupsDict d \<Rightarrow> groups_of_dict d))"
proof -
  have b: "channel_display_groups self = Some g \<and>
    validate_and_update_channel_display_groups self n = Inr m \<longrightarrow>
      len_groups g \<noteq> 0 \<and>
      m = (case g of GroupsSeq gs \<Rightarrow> groups_of_seq gs | GroupsDict d \<Rightarrow> groups_of_dict d)"
    by (auto simp: validate_and_update_channel_display_groups_def checked_groups_def
        split: if_splits channel_groups.splits sum.splits)
  show ?thesis
    apply (intro conjI)
    subgoal by (simp add: validate_and_update_channel_display_groups_def)
    subgoal by (simp add: len_groups_def)
    subgoal by (simp add: len_groups_def)
    subgoal by (rule default_groups)
    subgoal by (rule b)
    done
qed

theorem empty_channel_display_groups_rejected_witness:
  "validate_and_update_channel_display_groups
      \<lparr>transform = None, channel_display_groups = Some (GroupsSeq [])\<rparr> 4
     = Inl (ConfigError ''channel_display_groups cannot be empty. Set to None instead.'') \<and>
   validate_and_update_channel_display_groups
      \<lparr>transform = None, channel_display_groups = Some (GroupsDict [])\<rparr> 4
     = Inl (ConfigError ''channel_display_groups cannot be empty. Set to None instead.'') \<and>
   validate_and_update_channel_display_groups
      \<lparr>transform = None, channel_display_groups = None\<rparr> 4 = Inr [(''Input'', [0, 1, 2])]"
proof -
  have p1: "validate_and_update_channel_display_groups
      \<lparr>transform = None, channel_display_groups = Some (GroupsSeq [])\<rparr> 4
     = Inl (ConfigError ''channel_display_groups cannot be empty. Set to None instead.'')"
    using empty_channel_display_groups_rejected
        [where self = "\<lparr>transform = None, channel_display_groups = Some (GroupsSeq [])\<rparr>"
        and g = "GroupsSeq []" and n = 4, THEN conjunct1]
    by (simp add: len_groups_def)
  have p2: "validate_and_update_channel_display_groups
      \<lparr>transform = None, channel_display_groups = Some (GroupsDict [])\<rparr> 4
     = Inl (ConfigError ''channel_display_groups cannot be empty. Set to None instead.'')"
    using empty_channel_display_groups_rejected
        [where self = "\<lparr>transform = None, channel_display_groups = Some (GroupsDict [])\<rparr>"
        and g = "GroupsDict []" and n = 4, THEN conjunct1]
    by (simp add: len_groups_def)
  have p3: "validate_and_update_channel_display_groups
      \<lparr>transform = None, channel_display_groups = None\<rparr> 4 = Inr [(''Input'', [0, 1, 2])]"
    using empty_channel_display_groups_rejected
        [where self = "\<lparr>transform = None, channel_display_groups = None\<rparr>" and n = 4,
        THEN conjunct2, THEN conjunct2, THEN conjunct2, THEN conjunct1]
    by (simp add: py_range_3)
  show ?thesis using p1 p2 p3 by simp
qed

section \<open>Random subsets\<close>

lemma toy_shuffle:
  "shuffle toy_runtime (seed toy_runtime 1234) xs = (rev xs, 1235)"
  by (simp add: toy_runtime_def)

lemma rsd_none: "random_subset_dataset rt g ds None None = Inr (ds, g)"
  by (simp add: random_subset_dataset_def)

lemma rsd_size:
  "random_subset_dataset rt g ds (Some k) None
     = Inr (subset_first rt ds k, snd (shuffle rt (seed rt 1234) [0..<len ds]))"
  by (simp add: random_subset_dataset_def subset_first_def Let_def split_beta)

lemma rsd_fraction:
  "random_subset_dataset rt g ds None (Some f)
     = Inr (subset_first rt ds (py_int (fround rt (of_nat (len ds) * f))),
            snd (shuffle rt (seed rt 1234) [0..<len ds]))"
  by (simp add: random_subset_dataset_def subset_first_def Let_def split_beta)

lemma group_cap_capped:
  "\<exists>g'. group_cap rt g ds sz = Inr (capped rt ds sz, g')"
  by (auto simp: group_cap_def capped_def rsd_size rsd_fraction split: option.splits group_size.splits)

lemma rsd_both: "random_subset_dataset rt g ds (Some k) (Some f) \<noteq> Inr r"
  by (simp add: random_subset_dataset_def)

lemma rsd_capped:
  assumes "random_subset_dataset rt g ds sz fr = Inr (ds', g')"
  shows "(fr = None \<longrightarrow> ds' = capped rt ds (map_option IntV sz)) \<and>
         (sz = None \<longrightarrow> ds' = capped rt ds (map_option FloatV fr))"
proof (cases sz)
  case None
  show ?thesis
  proof (cases fr)
    case n: None
    with None assms show ?thesis
      by (simp add: random_subset_dataset_def capped_def)
  next
    case (Some f)
    with None assms show ?thesis
      by (simp add: rsd_fraction capped_def)
  qed
next
  case (Some k)
  show ?thesis
  proof (cases fr)
    case None
    with Some assms show ?thesis
      by (simp add: rsd_size capped_def)
  next
    case s: (Some f)
    with Some assms show ?thesis
      by (simp add: rsd_both)
  qed
qed

text \<open>
  Claim C3. \<^verbatim>\<open>random_subset_dataset(ds, size, fraction)\<close>: with both \<open>size\<close> and
  \<open>fraction\<close> set it raises; a fraction is converted to the count that truncates the
  float product \<^verbatim>\<open>len(ds) * fraction\<close>, and the call then is the call with that size;
  with a size, the result wraps \<open>ds\<close> with the slice \<^verbatim>\<open>[:size]\<close> (for a size that is
  not negative: the first \<open>size\<close> elements) of the list of all indices
  \<open>0, ..., len(ds) - 1\<close> shuffled from the state that \<^verbatim>\<open>random.seed(1234)\<close> sets; so two
  calls on datasets of the same length with the same size select the same index
  sequence, whatever the generator's state was before either call.
\<close>

theorem random_subset_dataset_deterministic:
  "random_subset_dataset rt g ds (Some k) (Some f)
     = Inl (ValueError ''Specify either size or fraction but not both.'') \<and>
   random_subset_dataset rt g ds None (Some f)
     = random_subset_dataset rt g ds (Some (py_int (fround rt (of_nat (len ds) * f)))) None \<and>
   random_subset_dataset rt g ds (Some k) None
     = Inr (Subset ds (slice_to (fst (shuffle rt (seed rt 1234) [0..<len ds])) k),
            snd (shuffle rt (seed rt 1234) [0..<len ds])) \<and>
   (0 \<le> k \<longrightarrow> slice_to xs k = take (nat k) xs) \<and>
   (len ds' = len ds \<longrightarrow>
      (\<exists>inds g''. random_subset_dataset rt g ds (Some k) None = Inr (Subset ds inds, g'') \<and>
                  random_subset_dataset rt g' ds' (Some k) None = Inr (Subset ds' inds, g'')))"
proof (intro conjI impI)
  show "random_subset_dataset rt g ds (Some k) (Some f)
     = Inl (ValueError ''Specify either size or fraction but not both.'')"
    by (simp add: random_subset_dataset_def)
  show "random_subset_dataset rt g ds None (Some f)
     = random_subset_dataset rt g ds (Some (py_int (fround rt (of_nat (len ds) * f)))) None"
    by (simp only: rsd_size rsd_fraction)
  show "random_subset_dataset rt g ds (Some k) None
     = Inr (Subset ds (slice_to (fst (shuffle rt (seed rt 1234) [0..<len ds])) k),
            snd (shuffle rt (seed rt 1234) [0..<len ds]))"
    by (simp add: rsd_size subset_first_def)
  show "slice_to xs k = take (nat k) xs" if "0 \<le> k"
    using that by (simp add: slice_to_def)
  show "\<exists>inds g''. random_subset_dataset rt g ds (Some k) None = Inr (Subset ds inds, g'') \<and>
                  random_subset_dataset rt g' ds' (Some k) None = Inr (Subset ds' inds, g'')"
    if "len ds' = len ds"
    using that by (simp add: rsd_size subset_first_def)
qed

theorem random_subset_dataset_deterministic_witness:
  "random_subset_dataset toy_runtime 0 (Data [10, 11, 12 :: nat]) (Some 2) (Some (1 / 2))
     = Inl (ValueError ''Specify either size or fraction but not both.'') \<and>
   random_subset_dataset toy_runtime 0 (Data [10, 11, 12 :: nat]) None (Some (1 / 2))
     = Inr (Subset (Data [10, 11, 12]) [2], 1235) \<and>
   random_subset_dataset toy_runtime 0 (Data [10, 11, 12 :: nat]) (Some 2) None
     = Inr (Subset (Data [10, 11, 12]) [2, 1], 1235) \<and>
   (0 :: int) \<le> 2 \<and> slice_to [2, 1, 0 :: nat] 2 = take (nat 2) [2, 1, 0] \<and>
   len (Data [20, 21, 22 :: nat]) = len (Data [10, 11, 12 :: nat]) \<and>
   (\<exists>inds g''.
      random_subset_dataset toy_runtime 0 (Data [10, 11, 12 :: nat]) (Some 2) None
        = Inr (Subset (Data [10, 11, 12]) inds, g'') \<and>
      random_subset_dataset toy_runtime 7 (Data [20, 21, 22 :: nat]) (Some 2) None
        = Inr (Subset (Data [20, 21, 22]) inds, g''))"
proof -
  have sh: "shuffle toy_runtime (seed toy_runtime 1234) [0..<3] = ([2, 1, 0], 1235)"
    by (simp add: toy_shuffle upt_rec)
  have len3: "len (Data [10, 11, 12 :: nat]) = 3" "len (Data [20, 21, 22 :: nat]) = 3"
    by simp_all
  have fr: "py_int (fround toy_runtime (of_nat 3 * (1 / 2))) = 1"
    by (simp add: py_int_def toy_runtime_def floor_eq_iff)
  note T = random_subset_dataset_deterministic
      [where rt = toy_runtime and g = 0 and ds = "Data [10, 11, 12 :: nat]" and k = 2
      and f = "1 / 2" and g' = 7 and ds' = "Data [20, 21, 22 :: nat]" and xs = "[2, 1, 0 :: nat]"]
  note V = random_subset_dataset_deterministic
      [where rt = toy_runtime and g = 0 and ds = "Data [10, 11, 12 :: nat]" and k = 1]
  have p1: "random_subset_dataset toy_runtime 0 (Data [10, 11, 12 :: nat]) (Some 2) (Some (1 / 2))
     = Inl (ValueError ''Specify either size or fraction but not both.'')"
    using T [THEN conjunct1] .
  have p3: "random_subset_dataset toy_runtime 0 (Data [10, 11, 12 :: nat]) (Some 2) None
     = Inr (Subset (Data [10, 11, 12]) [2, 1], 1235)"
    using T [THEN conjunct2, THEN conjunct2, THEN conjunct1]
    by (simp only: len3 sh fst_conv snd_conv) (simp add: slice_to_def)
  have p3': "random_subset_dataset toy_runtime 0 (Data [10, 11, 12 :: nat]) (Some 1) None
     = Inr (Subset (Data [10, 11, 12]) [2], 1235)"
    using V [THEN conjunct2, THEN conjunct2, THEN conjunct1]
    by (simp only: len3 sh fst_conv snd_conv) (simp add: slice_to_def)
  have p2: "random_subset_dataset toy_runtime 0 (Data [10, 11, 12 :: nat]) None (Some (1 / 2))
     = Inr (Subset (Data [10, 11, 12]) [2], 1235)"
    using T [THEN conjunct2, THEN conjunct1] p3'
    by (simp only: len3 fr)
  have p4: "slice_to [2, 1, 0 :: nat] 2 = take (nat 2) [2, 1, 0]"
    using T [THEN conjunct2, THEN conjunct2, THEN conjunct2, THEN conjunct1] by simp
  have l: "len (Data [20, 21, 22 :: nat]) = len (Data [10, 11, 12 :: nat])"
    by simp
  note p5 = T [THEN conjunct2, THEN conjunct2, THEN conjunct2, THEN conjunct2, rule_format, OF l]
  show ?thesis
    apply (intro conjI)
    subgoal by (rule p1)
    subgoal by (rule p2)
    subgoal by (rule p3)
    subgoal by simp
    subgoal by (rule p4)
    subgoal by (rule l)
    subgoal by (rule p5)
    done
qed

section \<open>The builds on the example inputs\<close>

lemma toy_from_uri:
  "get_datasets_from_uri toy_env (Some (UriStr ''a'')) False
     = Inr (ConcatDataset [Data [1, 2, 3]], ConcatDataset [Data []], ConcatDataset [Data []])"
  "get_datasets_from_uri toy_env (Some (UriStr ''b'')) False
     = Inr (ConcatDataset [Data [4, 5]], ConcatDataset [Data []], ConcatDataset [Data []])"
  by (simp_all add: get_datasets_from_uri_def toy_env_def make_datasets_def concat_three_def
      concat_dataset_def pad_empty_def path_join_def Let_def)

lemma toy_groups_capped:
  "get_datasets_from_group_uris toy_runtime toy_env 5 [UriStr ''a'', UriStr ''b'']
      (Some (One 1)) None False
     = Inr ((ConcatDataset [Subset (ConcatDataset [Data [1, 2, 3]]) [2],
                            Subset (ConcatDataset [Data [4, 5]]) [1]],
             ConcatDataset [ConcatDataset [Data []], ConcatDataset [Data []]],
             ConcatDataset [ConcatDataset [Data []], ConcatDataset [Data []]]), 1235)"
  by (simp add: get_datasets_from_group_uris_def group_sizes_def toy_from_uri group_cap_def
      concat_three_def concat_dataset_def random_subset_dataset_def toy_shuffle slice_to_def)

lemma toy_groups_uncapped:
  "get_datasets_from_group_uris toy_runtime toy_env 5 [UriStr ''a'', UriStr ''b''] None None False
     = Inr ((ConcatDataset [ConcatDataset [Data [1, 2, 3]], ConcatDataset [Data [4, 5]]],
             ConcatDataset [ConcatDataset [Data []], ConcatDataset [Data []]],
             ConcatDataset [ConcatDataset [Data []], ConcatDataset [Data []]]), 5)"
  by (simp add: get_datasets_from_group_uris_def group_sizes_def toy_from_uri group_cap_def
      concat_three_def concat_dataset_def)

lemma image_build_example:
  "image_build toy_runtime toy_env 5 example_image_data False
     = Inr ((Subset (ConcatDataset [ConcatDataset [Data [1, 2, 3]], ConcatDataset [Data [4, 5]]])
               [4, 3],
             ConcatDataset [ConcatDataset [Data []], ConcatDataset [Data []]],
             ConcatDataset [ConcatDataset [Data []], ConcatDataset [Data []]]), 1235)"
  by (simp add: image_build_def example_image_data_def toy_groups_uncapped
      random_subset_dataset_def toy_shuffle slice_to_def)

lemma geo_example:
  "geo_build toy_runtime toy_env 5 example_geo_data False
     = Inr ((ConcatDataset [Data [1, 2, 3], Data [4, 5]], ConcatDataset [Data [6]],
             ConcatDataset [Data []]), 5)"
  by (simp add: geo_build_def geo_make_datasets_def toy_env_def example_geo_data_def
      concat_three_def concat_dataset_def pad_empty_def)

lemma image_build_ungrouped_example:
  "image_build toy_runtime toy_env 5 (example_image_data\<lparr>group_uris := None\<rparr>) False
     = Inr ((ConcatDataset [Data [1, 2, 3]], ConcatDataset [Data []], ConcatDataset [Data []]), 5)"
  by (simp add: image_build_def example_image_data_def toy_from_uri)

section \<open>The cap without a size is the identity\<close>

text \<open>
  Claim C10. For every dataset \<open>ds\<close>, \<^verbatim>\<open>random_subset_dataset(ds, size=None,
  fraction=None)\<close> returns \<open>ds\<close> itself and leaves the generator's state as it was (no
  wrapper, no seeding, no shuffle); so the builds that call it only when \<^verbatim>\<open>train_sz\<close>
  or \<^verbatim>\<open>train_sz_rel\<close> is set (\<^verbatim>\<open>GeoDataConfig.build\<close>, and
  \<^verbatim>\<open>ImageDataConfig.build\<close> on its grouped path) return what they would return if they
  called it unconditionally.
\<close>

theorem random_subset_dataset_identity:
  "random_subset_dataset rt g ds None None = Inr (ds, g) \<and>
   geo_build rt e g self ov = geo_build_unconditional rt e g self ov \<and>
   image_build rt e g iself ov = image_build_unconditional rt e g iself ov"
proof (intro conjI)
  show "random_subset_dataset rt g ds None None = Inr (ds, g)" by (rule rsd_none)
  show "geo_build rt e g self ov = geo_build_unconditional rt e g self ov"
    by (auto simp: geo_build_def geo_build_unconditional_def rsd_none Let_def
        split: prod.splits sum.splits)
  show "image_build rt e g iself ov = image_build_unconditional rt e g iself ov"
    by (auto simp: image_build_def image_build_unconditional_def rsd_none
        split: option.splits prod.splits sum.splits)
qed

theorem random_subset_dataset_identity_witness:
  "random_subset_dataset toy_runtime 5 (Data [1, 2, 3 :: nat]) None None = Inr (Data [1, 2, 3], 5) \<and>
   geo_build_unconditional toy_runtime toy_env 5 example_geo_data False
     = Inr ((ConcatDataset [Data [1, 2, 3], Data [4, 5]], ConcatDataset [Data [6]],
             ConcatDataset [Data []]), 5) \<and>
   image_build_unconditional toy_runtime toy_env 5 example_image_data False
     = Inr ((Subset (ConcatDataset [ConcatDataset [Data [1, 2, 3]], ConcatDataset [Data [4, 5]]])
               [4, 3],
             ConcatDataset [ConcatDataset [Data []], ConcatDataset [Data []]],
             ConcatDataset [ConcatDataset [Data []], ConcatDataset [Data []]]), 1235)"
  using random_subset_dataset_identity
      [where rt = toy_runtime and g = 5 and ds = "Data [1, 2, 3 :: nat]" and e = toy_env
        and self = example_geo_data and ov = False and iself = example_image_data]
    geo_example image_build_example
  by simp

section \<open>Caps in the build of image datasets\<close>

lemma group_loop_result:
  "group_loop rt e ov zs g (trs, vas, tes) = Inr ((trs', vas', tes'), g') \<Longrightarrow>
   \<exists>ntr nva nte. trs' = trs @ ntr \<and> vas' = vas @ nva \<and> tes' = tes @ nte \<and>
     length ntr = length zs \<and> length nva = length zs \<and> length nte = length zs \<and>
     (\<forall>i < length zs. \<exists>tr.
         get_datasets_from_uri e (Some (fst (zs ! i))) ov = Inr (tr, nva ! i, nte ! i) \<and>
         ntr ! i = capped rt tr (snd (zs ! i)))"
proof (induction zs arbitrary: g trs vas tes)
  case Nil
  then show ?case by simp
next
  case (Cons z zs)
  obtain u sz where z: "z = (u, sz)" by (cases z)
  from Cons.prems obtain tr va te where
    uri: "get_datasets_from_uri e (Some u) ov = Inr (tr, va, te)"
    by (auto simp: z split: sum.splits)
  obtain g1 where cap: "group_cap rt g tr sz = Inr (capped rt tr sz, g1)"
    using group_cap_capped[of rt g tr sz] by auto
  from Cons.prems uri cap have rest:
    "group_loop rt e ov zs g1 (trs @ [capped rt tr sz], vas @ [va], tes @ [te])
       = Inr ((trs', vas', tes'), g')"
    by (simp add: z)
  from Cons.IH[OF rest] obtain ntr nva nte where
    r: "trs' = (trs @ [capped rt tr sz]) @ ntr" "vas' = (vas @ [va]) @ nva"
       "tes' = (tes @ [te]) @ nte"
       "length ntr = length zs" "length nva = length zs" "length nte = length zs"
       "\<forall>i < length zs. \<exists>tr.
         get_datasets_from_uri e (Some (fst (zs ! i))) ov = Inr (tr, nva ! i, nte ! i) \<and>
         ntr ! i = capped rt tr (snd (zs ! i))"
    by blast
  have all: "\<forall>i < length (z # zs). \<exists>tr'.
         get_datasets_from_uri e (Some (fst ((z # zs) ! i))) ov
           = Inr (tr', (va # nva) ! i, (te # nte) ! i) \<and>
         (capped rt tr sz # ntr) ! i = capped rt tr' (snd ((z # zs) ! i))"
  proof (intro allI impI)
    fix i assume "i < length (z # zs)"
    show "\<exists>tr'. get_datasets_from_uri e (Some (fst ((z # zs) ! i))) ov
           = Inr (tr', (va # nva) ! i, (te # nte) ! i) \<and>
         (capped rt tr sz # ntr) ! i = capped rt tr' (snd ((z # zs) ! i))"
    proof (cases i)
      case 0
      then show ?thesis using uri by (simp add: z)
    next
      case (Suc j)
      with \<open>i < length (z # zs)\<close> have "j < length zs" by simp
      with r(7) Suc show ?thesis by simp
    qed
  qed
  show ?case
    apply (rule exI[of _ "capped rt tr sz # ntr"])
    apply (rule exI[of _ "va # nva"])
    apply (rule exI[of _ "te # nte"])
    using r all by simp
qed

lemma concat_three_Inr:
  "concat_three a b c = Inr (x, y, z) \<Longrightarrow>
   x = ConcatDataset a \<and> y = ConcatDataset b \<and> z = ConcatDataset c"
  by (auto simp: concat_three_def concat_dataset_def split: if_splits)

lemma group_uris_result:
  assumes "get_datasets_from_group_uris rt e g uris gs gr ov = Inr ((train, valid, test), g')"
  shows "\<exists>trs vas tes. train = ConcatDataset trs \<and> valid = ConcatDataset vas \<and>
     test = ConcatDataset tes \<and>
     length trs = min (length uris) (length (group_sizes uris gs gr)) \<and>
     (\<forall>i < length trs. \<exists>tr va te.
         get_datasets_from_uri e (Some (uris ! i)) ov = Inr (tr, va, te) \<and>
         trs ! i = capped rt tr (group_sizes uris gs gr ! i))"
proof -
  let ?zs = "zip uris (group_sizes uris gs gr)"
  from assms obtain trs vas tes where
    loop: "group_loop rt e ov ?zs g ([], [], []) = Inr ((trs, vas, tes), g')"
    and cat: "concat_three trs vas tes = Inr (train, valid, test)"
    by (auto simp: get_datasets_from_group_uris_def split: sum.splits prod.splits)
  from group_loop_result[OF loop] have
    l: "length trs = length ?zs"
    and a: "\<forall>i < length ?zs. \<exists>tr.
         get_datasets_from_uri e (Some (fst (?zs ! i))) ov = Inr (tr, vas ! i, tes ! i) \<and>
         trs ! i = capped rt tr (snd (?zs ! i))"
    by auto
  have "\<forall>i < length trs. \<exists>tr va te.
         get_datasets_from_uri e (Some (uris ! i)) ov = Inr (tr, va, te) \<and>
         trs ! i = capped rt tr (group_sizes uris gs gr ! i)"
  proof (intro allI impI)
    fix i assume i: "i < length trs"
    with l have "i < length ?zs" by simp
    with a obtain tr where
      "get_datasets_from_uri e (Some (fst (?zs ! i))) ov = Inr (tr, vas ! i, tes ! i)"
      "trs ! i = capped rt tr (snd (?zs ! i))" by blast
    moreover from \<open>i < length ?zs\<close> have "fst (?zs ! i) = uris ! i"
      "snd (?zs ! i) = group_sizes uris gs gr ! i" by simp_all
    ultimately show "\<exists>tr va te.
         get_datasets_from_uri e (Some (uris ! i)) ov = Inr (tr, va, te) \<and>
         trs ! i = capped rt tr (group_sizes uris gs gr ! i)" by auto
  qed
  then show ?thesis
    using concat_three_Inr[OF cat] l by auto
qed

text \<open>
  Claim C1, amended. In \<^verbatim>\<open>ImageDataConfig.build\<close> with \<^verbatim>\<open>group_uris\<close> set, the datasets
  come from \<^verbatim>\<open>get_datasets_from_group_uris\<close>, which applies the per-group cap it is given
  to each group's training dataset before the per-group datasets are concatenated (the
  training dataset it returns is the concatenation of the capped per-group datasets); the
  overall \<^verbatim>\<open>train_sz\<close> / \<^verbatim>\<open>train_sz_rel\<close> cap is then applied to that concatenated
  training dataset, and the validation and test datasets are returned as they are.
\<close>

theorem image_build_grouped_caps:
  "(get_datasets_from_group_uris rt e g uris gs gr ov = Inr ((train0, valid0, test0), g0) \<longrightarrow>
      (\<exists>trs. train0 = ConcatDataset trs \<and>
         length trs = min (length uris) (length (group_sizes uris gs gr)) \<and>
         (\<forall>i < length trs. \<exists>tr va te.
            get_datasets_from_uri e (Some (uris ! i)) ov = Inr (tr, va, te) \<and>
            trs ! i = capped rt tr (group_sizes uris gs gr ! i)))) \<and>
   (group_uris self = Some uris \<and>
    image_build rt e g self ov = Inr ((train, valid, test), g') \<longrightarrow>
      (\<exists>gs' gr' trs g1.
         get_datasets_from_group_uris rt e g uris gs' gr' ov
           = Inr ((ConcatDataset trs, valid, test), g1) \<and>
         random_subset_dataset rt g1 (ConcatDataset trs) (train_sz self) (train_sz_rel self)
           = Inr (train, g') \<and>
         (train_sz_rel self = None \<longrightarrow>
            train = capped rt (ConcatDataset trs) (map_option IntV (train_sz self))) \<and>
         (train_sz self = None \<longrightarrow>
            train = capped rt (ConcatDataset trs) (map_option FloatV (train_sz_rel self)))))"
proof (intro conjI impI)
  assume "get_datasets_from_group_uris rt e g uris gs gr ov = Inr ((train0, valid0, test0), g0)"
  from group_uris_result[OF this]
  show "\<exists>trs. train0 = ConcatDataset trs \<and>
         length trs = min (length uris) (length (group_sizes uris gs gr)) \<and>
         (\<forall>i < length trs. \<exists>tr va te.
            get_datasets_from_uri e (Some (uris ! i)) ov = Inr (tr, va, te) \<and>
            trs ! i = capped rt tr (group_sizes uris gs gr ! i))"
    by blast
next
  assume a: "group_uris self = Some uris \<and>
    image_build rt e g self ov = Inr ((train, valid, test), g')"
  then obtain cat va te g1 where
    grp: "get_datasets_from_group_uris rt e g uris None None ov = Inr ((cat, va, te), g1)"
    by (auto simp: image_build_def split: sum.splits)
  from group_uris_result[OF grp] obtain trs where cat: "cat = ConcatDataset trs" by blast
  have cap: "random_subset_dataset rt g1 cat (train_sz self) (train_sz_rel self) = Inr (train, g')"
    and v: "va = valid" "te = test"
    using a grp by (auto simp: image_build_def rsd_none split: sum.splits if_splits)
  note c = rsd_capped[OF cap]
  show "\<exists>gs' gr' trs g1.
         get_datasets_from_group_uris rt e g uris gs' gr' ov
           = Inr ((ConcatDataset trs, valid, test), g1) \<and>
         random_subset_dataset rt g1 (ConcatDataset trs) (train_sz self) (train_sz_rel self)
           = Inr (train, g') \<and>
         (train_sz_rel self = None \<longrightarrow>
            train = capped rt (ConcatDataset trs) (map_option IntV (train_sz self))) \<and>
         (train_sz self = None \<longrightarrow>
            train = capped rt (ConcatDataset trs) (map_option FloatV (train_sz_rel self)))"
    apply (rule exI[of _ None])
    apply (rule exI[of _ None])
    apply (rule exI[of _ trs])
    apply (rule exI[of _ g1])
    using grp cap c v cat by simp
qed

theorem image_build_grouped_caps_witness:
  "get_datasets_from_group_uris toy_runtime toy_env 5 [UriStr ''a'', UriStr ''b'']
      (Some (One 1)) None False
     = Inr ((ConcatDataset [Subset (ConcatDataset [Data [1, 2, 3]]) [2],
                            Subset (ConcatDataset [Data [4, 5]]) [1]],
             ConcatDataset [ConcatDataset [Data []], ConcatDataset [Data []]],
             ConcatDataset [ConcatDataset [Data []], ConcatDataset [Data []]]), 1235) \<and>
   (\<exists>trs. ConcatDataset [Subset (ConcatDataset [Data [1, 2, 3]]) [2],
                         Subset (ConcatDataset [Data [4, 5]]) [1]] = ConcatDataset trs \<and>
      length trs = 2 \<and>
      (\<exists>tr va te. get_datasets_from_uri toy_env (Some (UriStr ''a'')) False = Inr (tr, va, te) \<and>
         trs ! 0 = capped toy_runtime tr (Some (IntV 1))) \<and>
      (\<exists>tr va te. get_datasets_from_uri toy_env (Some (UriStr ''b'')) False = Inr (tr, va, te) \<and>
         trs ! 1 = capped toy_runtime tr (Some (IntV 1)))) \<and>
   group_uris example_image_data = Some [UriStr ''a'', UriStr ''b''] \<and>
   image_build toy_runtime toy_env 5 example_image_data False
     = Inr ((Subset (ConcatDataset [ConcatDataset [Data [1, 2, 3]], ConcatDataset [Data [4, 5]]])
               [4, 3],
             ConcatDataset [ConcatDataset [Data []], ConcatDataset [Data []]],
             ConcatDataset [ConcatDataset [Data []], ConcatDataset [Data []]]), 1235) \<and>
   (\<exists>trs. Subset (ConcatDataset [ConcatDataset [Data [1, 2, 3 :: nat]],
                                     ConcatDataset [Data [4, 5]]]) [4, 3]
          = capped toy_runtime (ConcatDataset trs) (Some (IntV 2)))"
proof -
  note A = image_build_grouped_caps [where rt = toy_runtime and e = toy_env and g = 5
      and uris = "[UriStr ''a'', UriStr ''b'']" and gs = "Some (One 1)" and gr = None
      and ov = False, THEN conjunct1, rule_format, OF toy_groups_capped]
  have gu: "group_uris example_image_data = Some [UriStr ''a'', UriStr ''b'']"
    by (simp add: example_image_data_def)
  note B = image_build_grouped_caps [where rt = toy_runtime and e = toy_env and g = 5
      and uris = "[UriStr ''a'', UriStr ''b'']" and self = example_image_data
      and ov = False, THEN conjunct2, rule_format, OF conjI, OF gu image_build_example]
  have sz: "group_sizes [UriStr ''a'', UriStr ''b''] (Some (One 1)) None
      = [Some (IntV 1), Some (IntV 1)]"
    by (simp add: group_sizes_def)
  from A obtain trs where
    t: "ConcatDataset [Subset (ConcatDataset [Data [1, 2, 3]]) [2],
                       Subset (ConcatDataset [Data [4, 5]]) [1]] = ConcatDataset trs"
    and l: "length trs = 2"
    and el: "\<forall>i < length trs. \<exists>tr va te.
            get_datasets_from_uri toy_env (Some ([UriStr ''a'', UriStr ''b''] ! i)) False
              = Inr (tr, va, te) \<and>
            trs ! i = capped toy_runtime tr ([Some (IntV 1), Some (IntV 1)] ! i)"
    unfolding sz by auto
  from el l have e0: "\<exists>tr va te.
      get_datasets_from_uri toy_env (Some (UriStr ''a'')) False = Inr (tr, va, te) \<and>
      trs ! 0 = capped toy_runtime tr (Some (IntV 1))"
    by (metis nth_Cons_0 zero_less_numeral)
  from el l have "\<exists>tr va te.
      get_datasets_from_uri toy_env (Some ([UriStr ''a'', UriStr ''b''] ! 1)) False
        = Inr (tr, va, te) \<and>
      trs ! 1 = capped toy_runtime tr ([Some (IntV 1), Some (IntV 1)] ! 1)"
    by (metis one_less_numeral_iff semiring_norm(76))
  then have e1: "\<exists>tr va te.
      get_datasets_from_uri toy_env (Some (UriStr ''b'')) False = Inr (tr, va, te) \<and>
      trs ! 1 = capped toy_runtime tr (Some (IntV 1))"
    by simp
  from B have b: "\<exists>trs. Subset (ConcatDataset [ConcatDataset [Data [1, 2, 3 :: nat]],
        ConcatDataset [Data [4, 5]]]) [4, 3]
          = capped toy_runtime (ConcatDataset trs) (Some (IntV 2))"
    by (auto simp: example_image_data_def)
  have a: "\<exists>trs. ConcatDataset [Subset (ConcatDataset [Data [1, 2, 3 :: nat]]) [2],
                         Subset (ConcatDataset [Data [4, 5]]) [1]] = ConcatDataset trs \<and>
      length trs = 2 \<and>
      (\<exists>tr va te. get_datasets_from_uri toy_env (Some (UriStr ''a'')) False = Inr (tr, va, te) \<and>
         trs ! 0 = capped toy_runtime tr (Some (IntV 1))) \<and>
      (\<exists>tr va te. get_datasets_from_uri toy_env (Some (UriStr ''b'')) False = Inr (tr, va, te) \<and>
         trs ! 1 = capped toy_runtime tr (Some (IntV 1)))"
    using t l e0 e1 by (intro exI[of _ trs] conjI)
  show ?thesis
    apply (intro conjI)
    subgoal by (rule toy_groups_capped)
    subgoal by (rule a)
    subgoal by (rule gu)
    subgoal by (rule image_build_example)
    subgoal by (rule b)
    done
qed

text \<open>
  The claim as it was stated fails. On the example config (two groups, \<^verbatim>\<open>group_train_sz
  = 1\<close>, \<^verbatim>\<open>train_sz = 2\<close>) the build caps the concatenation of the uncapped groups at 2,
  where the claim has the concatenation of the groups capped at 1 each and no overall cap;
  and without \<^verbatim>\<open>group_uris\<close> the build returns the uncapped dataset.
\<close>

theorem image_build_caps_counterexample:
  "image_build toy_runtime toy_env 5 example_image_data False
     = Inr ((Subset (ConcatDataset [ConcatDataset [Data [1, 2, 3]], ConcatDataset [Data [4, 5]]])
               [4, 3],
             ConcatDataset [ConcatDataset [Data []], ConcatDataset [Data []]],
             ConcatDataset [ConcatDataset [Data []], ConcatDataset [Data []]]), 1235) \<and>
   image_build_as_claimed toy_runtime toy_env 5 example_image_data False
     = Inr ((ConcatDataset [Subset (ConcatDataset [Data [1, 2, 3]]) [2],
                            Subset (ConcatDataset [Data [4, 5]]) [1]],
             ConcatDataset [ConcatDataset [Data []], ConcatDataset [Data []]],
             ConcatDataset [ConcatDataset [Data []], ConcatDataset [Data []]]), 1235) \<and>
   image_build toy_runtime toy_env 5 example_image_data False
     \<noteq> image_build_as_claimed toy_runtime toy_env 5 example_image_data False \<and>
   image_build toy_runtime toy_env 5 (example_image_data\<lparr>group_uris := None\<rparr>) False
     = Inr ((ConcatDataset [Data [1, 2, 3]], ConcatDataset [Data []], ConcatDataset [Data []]), 5)"
proof -
  have b: "image_build_as_claimed toy_runtime toy_env 5 example_image_data False
     = Inr ((ConcatDataset [Subset (ConcatDataset [Data [1, 2, 3]]) [2],
                            Subset (ConcatDataset [Data [4, 5]]) [1]],
             ConcatDataset [ConcatDataset [Data []], ConcatDataset [Data []]],
             ConcatDataset [ConcatDataset [Data []], ConcatDataset [Data []]]), 1235)"
    by (simp add: image_build_as_claimed_def example_image_data_def toy_groups_capped)
  show ?thesis
    unfolding image_build_example image_build_ungrouped_example b by simp
qed

section \<open>Window configs\<close>

text \<open>
  What holds of a \<^verbatim>\<open>GeoDataWindowConfig\<close> whose size is an integer: with the random
  method and none of \<^verbatim>\<open>size_lims\<close>, \<^verbatim>\<open>h_lims\<close>, \<^verbatim>\<open>w_lims\<close> set, \<^verbatim>\<open>update()\<close> sets
  \<^verbatim>\<open>size_lims\<close> to (size, size + 1). For any size: with the sliding method and no
  stride, \<^verbatim>\<open>validate_config\<close> raises a configuration error; with the random method,
  \<^verbatim>\<open>validate_config\<close> returns normally exactly when its update succeeds and, after it,
  either \<^verbatim>\<open>size_lims\<close> is set and neither \<^verbatim>\<open>h_lims\<close> nor \<^verbatim>\<open>w_lims\<close> is, or
  \<^verbatim>\<open>h_lims\<close> and \<^verbatim>\<open>w_lims\<close> are both set and \<^verbatim>\<open>size_lims\<close> is not; otherwise
  (after a successful update) it raises a configuration error.
\<close>

lemma window_config_integer_size:
  "(wmethod self = Random \<and> size_lims self = None \<and> h_lims self = None \<and> w_lims self = None \<and>
    wsize self = IntOnly k \<longrightarrow>
      GeoDataWindowConfig_update self = Inr (self\<lparr>size_lims := Some (k, k + 1)\<rparr>)) \<and>
   (wmethod self = Sliding \<and> stride self = None \<longrightarrow>
      (\<exists>msg. GeoDataWindowConfig_validate_config self = Inl (ConfigError msg))) \<and>
   (wmethod self = Random \<longrightarrow>
      ((\<exists>self'. GeoDataWindowConfig_validate_config self = Inr self') \<longleftrightarrow>
       (\<exists>self'. GeoDataWindowConfig_update self = Inr self' \<and>
          ((size_lims self' \<noteq> None \<and> h_lims self' = None \<and> w_lims self' = None) \<or>
           (size_lims self' = None \<and> h_lims self' \<noteq> None \<and> w_lims self' \<noteq> None))))) \<and>
   (wmethod self = Random \<and> GeoDataWindowConfig_update self = Inr self' \<and>
    \<not> ((size_lims self' \<noteq> None \<and> h_lims self' = None \<and> w_lims self' = None) \<or>
       (size_lims self' = None \<and> h_lims self' \<noteq> None \<and> w_lims self' \<noteq> None)) \<longrightarrow>
      (\<exists>msg. GeoDataWindowConfig_validate_config self = Inl (ConfigError msg)))"
proof -
  have u: "GeoDataWindowConfig_update self = Inr s \<Longrightarrow> wmethod s = wmethod self" for s
    by (auto simp: GeoDataWindowConfig_update_def Let_def split: if_splits int_or_pair.splits)
  have a: "wmethod self = Random \<and> size_lims self = None \<and> h_lims self = None \<and> w_lims self = None \<and>
    wsize self = IntOnly k \<longrightarrow>
      GeoDataWindowConfig_update self = Inr (self\<lparr>size_lims := Some (k, k + 1)\<rparr>)"
    by (simp add: GeoDataWindowConfig_update_def)
  have b: "wmethod self = Sliding \<and> stride self = None \<longrightarrow>
      (\<exists>msg. GeoDataWindowConfig_validate_config self = Inl (ConfigError msg))"
    by (simp add: GeoDataWindowConfig_validate_config_def GeoDataWindowConfig_update_def)
  have c: "wmethod self = Random \<longrightarrow>
      ((\<exists>self'. GeoDataWindowConfig_validate_config self = Inr self') \<longleftrightarrow>
       (\<exists>self'. GeoDataWindowConfig_update self = Inr self' \<and>
          ((size_lims self' \<noteq> None \<and> h_lims self' = None \<and> w_lims self' = None) \<or>
           (size_lims self' = None \<and> h_lims self' \<noteq> None \<and> w_lims self' \<noteq> None))))"
  proof (cases "GeoDataWindowConfig_update self")
    case (Inl err)
    then show ?thesis by (simp add: GeoDataWindowConfig_validate_config_def)
  next
    case (Inr s)
    show ?thesis
    proof
      assume r: "wmethod self = Random"
      with u[OF Inr] have "wmethod s = Random" by simp
      then show "(\<exists>self'. GeoDataWindowConfig_validate_config self = Inr self') \<longleftrightarrow>
       (\<exists>self'. GeoDataWindowConfig_update self = Inr self' \<and>
          ((size_lims self' \<noteq> None \<and> h_lims self' = None \<and> w_lims self' = None) \<or>
           (size_lims self' = None \<and> h_lims self' \<noteq> None \<and> w_lims self' \<noteq> None)))"
        using Inr by (auto simp: GeoDataWindowConfig_validate_config_def Let_def)
    qed
  qed
  have d: "wmethod self = Random \<and> GeoDataWindowConfig_update self = Inr self' \<and>
    \<not> ((size_lims self' \<noteq> None \<and> h_lims self' = None \<and> w_lims self' = None) \<or>
       (size_lims self' = None \<and> h_lims self' \<noteq> None \<and> w_lims self' \<noteq> None)) \<longrightarrow>
      (\<exists>msg. GeoDataWindowConfig_validate_config self = Inl (ConfigError msg))"
  proof (intro impI, elim conjE)
    assume r: "wmethod self = Random" and up: "GeoDataWindowConfig_update self = Inr self'"
      and n: "\<not> ((size_lims self' \<noteq> None \<and> h_lims self' = None \<and> w_lims self' = None) \<or>
       (size_lims self' = None \<and> h_lims self' \<noteq> None \<and> w_lims self' \<noteq> None))"
    from u[OF up] r have "wmethod self' = Random" by simp
    with up n show "\<exists>msg. GeoDataWindowConfig_validate_config self = Inl (ConfigError msg)"
      by (auto simp: GeoDataWindowConfig_validate_config_def Let_def)
  qed
  show ?thesis using a b c d by (intro conjI)
qed

lemma window_config_integer_size_example:
  "GeoDataWindowConfig_update example_window = Inr (example_window\<lparr>size_lims := Some (256, 257)\<rparr>) \<and>
   (\<exists>msg. GeoDataWindowConfig_validate_config (example_window\<lparr>wmethod := Sliding\<rparr>)
      = Inl (ConfigError msg)) \<and>
   (\<exists>self'. GeoDataWindowConfig_validate_config example_window = Inr self') \<and>
   (\<exists>msg. GeoDataWindowConfig_validate_config
      (example_window\<lparr>size_lims := Some (100, 200), h_lims := Some (100, 200)\<rparr>)
      = Inl (ConfigError msg))"
proof -
  have p1: "GeoDataWindowConfig_update example_window
      = Inr (example_window\<lparr>size_lims := Some (256, 257)\<rparr>)"
    using window_config_integer_size [where self = example_window and k = 256, THEN conjunct1]
    by (simp add: example_window_def)
  have p2: "\<exists>msg. GeoDataWindowConfig_validate_config (example_window\<lparr>wmethod := Sliding\<rparr>)
      = Inl (ConfigError msg)"
    using window_config_integer_size [where self = "example_window\<lparr>wmethod := Sliding\<rparr>", THEN conjunct2, THEN conjunct1]
    by (simp add: example_window_def)
  have p3: "\<exists>self'. GeoDataWindowConfig_validate_config example_window = Inr self'"
    using window_config_integer_size [where self = example_window, THEN conjunct2, THEN conjunct2, THEN conjunct1] p1
    by (simp add: example_window_def)
  have up: "GeoDataWindowConfig_update
      (example_window\<lparr>size_lims := Some (100, 200), h_lims := Some (100, 200)\<rparr>)
      = Inr (example_window\<lparr>size_lims := Some (100, 200), h_lims := Some (100, 200)\<rparr>)"
    by (simp add: GeoDataWindowConfig_update_def example_window_def)
  have p4: "\<exists>msg. GeoDataWindowConfig_validate_config
      (example_window\<lparr>size_lims := Some (100, 200), h_lims := Some (100, 200)\<rparr>)
      = Inl (ConfigError msg)"
    using window_config_integer_size [where self = "example_window\<lparr>size_lims := Some (100, 200), h_lims := Some (100, 200)\<rparr>"
        and self' = "example_window\<lparr>size_lims := Some (100, 200), h_lims := Some (100, 200)\<rparr>",
        THEN conjunct2, THEN conjunct2, THEN conjunct2] up
    by (simp add: example_window_def)
  show ?thesis using p1 p2 p3 p4 by simp
qed

lemma GeoDataWindowConfig_update_pair_size:
  "wmethod self = Random \<Longrightarrow> size_lims self = None \<Longrightarrow> h_lims self = None \<Longrightarrow>
   wsize self = IntPair a b \<Longrightarrow>
   GeoDataWindowConfig_update self = Inl TypeError \<and>
   GeoDataWindowConfig_validate_config self = Inl TypeError"
  by (simp add: GeoDataWindowConfig_update_def GeoDataWindowConfig_validate_config_def)

text \<open>
  Claim C6. The claim says that for any \<^verbatim>\<open>GeoDataWindowConfig\<close> with the random method
  and neither \<^verbatim>\<open>size_lims\<close> nor \<^verbatim>\<open>h_lims\<close> / \<^verbatim>\<open>w_lims\<close> set, \<^verbatim>\<open>update()\<close> sets
  \<^verbatim>\<open>size_lims\<close> to (size, size + 1), and that \<^verbatim>\<open>validate_config\<close> then accepts the
  config. The field \<^verbatim>\<open>size\<close> may hold a pair of integers as well as an integer, and the
  code computes \<^verbatim>\<open>self.size + 1\<close> without telling the two apart: on the example config
  with the size (256, 256), the random method and no limits, \<^verbatim>\<open>update()\<close> raises
  TypeError and sets nothing, and so does \<^verbatim>\<open>validate_config\<close>, which calls it first.
\<close>

theorem GeoDataWindowConfig_update_pair_size_raises:
  "GeoDataWindowConfig_update (example_window\<lparr>wsize := IntPair 256 256\<rparr>) = Inl TypeError \<and>
   GeoDataWindowConfig_validate_config (example_window\<lparr>wsize := IntPair 256 256\<rparr>)
     = Inl TypeError"
  by (simp add: GeoDataWindowConfig_update_def GeoDataWindowConfig_validate_config_def
      example_window_def)

section \<open>The update of the learner config\<close>

lemma LearnerConfig_update_both_modes:
  "overfit_mode self \<Longrightarrow> test_mode self \<Longrightarrow>
   LearnerConfig_update rt g self = Inl (AttributeError ''test_overfit_num_steps'')"
  by (simp add: LearnerConfig_update_def Let_def)

lemma DataConfig_update_fields:
  "DataConfig_update rt g d = Inr (d', g') \<Longrightarrow>
   num_workers d' = num_workers d \<and> img_sz d' = img_sz d"
  by (auto simp: DataConfig_update_def Let_def split_beta
      split: if_splits option.splits sum.splits)

text \<open>What an update that returns has done: here the two modes are not both set.\<close>

lemma LearnerConfig_update_modes:
  assumes "LearnerConfig_update rt g self = Inr (self', g')"
  shows "(test_mode self \<longrightarrow>
            num_workers (data self') = 0 \<and>
            num_epochs (solver self') = test_num_epochs (solver self) \<and>
            batch_sz (solver self') = test_batch_sz (solver self)) \<and>
         (overfit_mode self \<longrightarrow> img_sz (data self') = img_sz (data self) div 2 \<and> \<not> test_mode self)"
  using assms
  by (auto simp: LearnerConfig_update_def Let_def ModelConfig_update_def SolverConfig_update_def
      split: if_splits sum.splits dest!: DataConfig_update_fields)

text \<open>
  Claim C2. The claim says that after \<^verbatim>\<open>update()\<close>, with \<^verbatim>\<open>test_mode\<close> and
  \<^verbatim>\<open>overfit_mode\<close> both set, \<^verbatim>\<open>solver.overfit_num_steps\<close> has been replaced by a
  test-specific step count (and the image size halved, the test epochs and batch size
  substituted, the workers set to 0, the update propagated). The code reads the count
  from \<^verbatim>\<open>self.solver.test_overfit_num_steps\<close>, a field that \<^verbatim>\<open>SolverConfig\<close> does not
  declare: on the example config, which sets both modes, \<^verbatim>\<open>update()\<close> raises
  AttributeError and returns no config.
\<close>

theorem LearnerConfig_update_test_overfit_raises:
  "LearnerConfig_update toy_runtime 0 example_learner
    = Inl (AttributeError ''test_overfit_num_steps'')"
  by (simp add: LearnerConfig_update_def example_learner_def Let_def)

section \<open>Windows of the classification task\<close>

lemma train_windows_loop_filter:
  "train_windows_loop scene ws acc
     = acc @ filter (\<lambda>w. 0 < sum_list (ravel (get_chip (raster_source scene) w))) ws"
  by (induction ws arbitrary: acc) (simp_all add: Let_def)

subsection \<open>The grid modelled from the spec\<close>

text \<open>
  For a positive chip size and a stride equal to it, the cells of \<open>grid_windows\<close> are
  squares of that size whose upper left corner lies in the extent, no two different cells
  overlap, every pixel of the extent lies in a cell, and no cell is listed twice.
\<close>

lemma int_less_div_iff:
  fixes k n s :: int
  assumes "0 < s"
  shows "k < n div s \<longleftrightarrow> (k + 1) * s \<le> n"
proof
  assume "k < n div s"
  then have "k + 1 \<le> n div s" by simp
  then have "(k + 1) * s \<le> (n div s) * s"
    using assms by (intro mult_right_mono) simp_all
  also have "\<dots> = n - n mod s" by (simp add: minus_mod_eq_div_mult)
  also have "\<dots> \<le> n" using assms by simp
  finally show "(k + 1) * s \<le> n" .
next
  assume "(k + 1) * s \<le> n"
  then have "((k + 1) * s) div s \<le> n div s"
    using assms by (intro zdiv_mono1) simp_all
  then show "k < n div s" using assms by simp
qed

lemma range_step_mem:
  assumes "0 < s"
  shows "x \<in> set (range_step a b s) \<longleftrightarrow> (\<exists>i::nat. x = a + int i * s \<and> x < b)"
proof -
  have k: "int i < (b - a + s - 1) div s \<longleftrightarrow> a + int i * s < b" for i :: nat
    unfolding int_less_div_iff[OF assms] by (simp add: algebra_simps) arith
  have "x \<in> set (range_step a b s)
      \<longleftrightarrow> (\<exists>i::nat. i < nat ((b - a + s - 1) div s) \<and> x = a + int i * s)"
    using assms by (auto simp: range_step_def)
  also have "\<dots> \<longleftrightarrow> (\<exists>i::nat. x = a + int i * s \<and> x < b)"
    using k by (auto simp: nat_less_iff zless_nat_eq_int_zless)
  finally show ?thesis .
qed

lemma grid_windows_mem:
  assumes "0 < s"
  shows "w \<in> set (grid_windows ext cs s) \<longleftrightarrow>
     (\<exists>i j::nat. w = make_square (ymin ext + int i * s) (xmin ext + int j * s) cs \<and>
        ymin ext + int i * s < ymax ext \<and> xmin ext + int j * s < xmax ext)"
proof -
  have "w \<in> set (grid_windows ext cs s) \<longleftrightarrow>
      (\<exists>r. r \<in> set (range_step (ymin ext) (ymax ext) s) \<and>
        (\<exists>c. c \<in> set (range_step (xmin ext) (xmax ext) s) \<and> w = make_square r c cs))"
    by (auto simp: grid_windows_def)
  also have "\<dots> \<longleftrightarrow>
     (\<exists>i j::nat. w = make_square (ymin ext + int i * s) (xmin ext + int j * s) cs \<and>
        ymin ext + int i * s < ymax ext \<and> xmin ext + int j * s < xmax ext)"
    unfolding range_step_mem[OF assms] by blast
  finally show ?thesis .
qed

lemma grid_windows_square:
  "w \<in> set (grid_windows ext cs s) \<Longrightarrow> ymax w - ymin w = cs \<and> xmax w - xmin w = cs"
  by (auto simp: grid_windows_def make_square_def)

lemma same_cell:
  fixes i j :: nat and c :: int
  assumes "0 < c" "a + int i * c < a + int j * c + c" "a + int j * c < a + int i * c + c"
  shows "i = j"
proof -
  from assms(2) have "int i * c < (int j + 1) * c" by (simp add: algebra_simps)
  then have 1: "int i < int j + 1" using assms(1) by (simp add: mult_less_cancel_right)
  from assms(3) have "int j * c < (int i + 1) * c" by (simp add: algebra_simps)
  then have 2: "int j < int i + 1" using assms(1) by (simp add: mult_less_cancel_right)
  from 1 2 show ?thesis by simp
qed

lemma grid_windows_no_overlap:
  assumes "0 < cs" "a \<in> set (grid_windows ext cs cs)" "b \<in> set (grid_windows ext cs cs)"
    "overlap a b"
  shows "a = b"
proof -
  from assms(2) obtain i j :: nat where
    a: "a = make_square (ymin ext + int i * cs) (xmin ext + int j * cs) cs"
    unfolding grid_windows_mem[OF assms(1)] by blast
  from assms(3) obtain i' j' :: nat where
    b: "b = make_square (ymin ext + int i' * cs) (xmin ext + int j' * cs) cs"
    unfolding grid_windows_mem[OF assms(1)] by blast
  from assms(4) have "i = i'"
    unfolding a b overlap_def make_square_def
    by (intro same_cell[OF assms(1), of "ymin ext"]) simp_all
  moreover from assms(4) have "j = j'"
    unfolding a b overlap_def make_square_def
    by (intro same_cell[OF assms(1), of "xmin ext"]) simp_all
  ultimately show ?thesis by (simp add: a b)
qed

lemma grid_windows_cover:
  assumes "0 < cs" "in_box p ext"
  shows "\<exists>w \<in> set (grid_windows ext cs cs). in_box p w"
proof -
  define i where "i = nat ((fst p - ymin ext) div cs)"
  define j where "j = nat ((snd p - xmin ext) div cs)"
  from assms have y: "0 \<le> fst p - ymin ext" and x: "0 \<le> snd p - xmin ext"
    by (simp_all add: in_box_def)
  have iy: "int i * cs = (fst p - ymin ext) - (fst p - ymin ext) mod cs"
    using assms(1) y by (simp add: i_def pos_imp_zdiv_nonneg_iff minus_mod_eq_div_mult)
  have jx: "int j * cs = (snd p - xmin ext) - (snd p - xmin ext) mod cs"
    using assms(1) x by (simp add: j_def pos_imp_zdiv_nonneg_iff minus_mod_eq_div_mult)
  have my: "0 \<le> (fst p - ymin ext) mod cs" "(fst p - ymin ext) mod cs < cs"
    using assms(1) by simp_all
  have mx: "0 \<le> (snd p - xmin ext) mod cs" "(snd p - xmin ext) mod cs < cs"
    using assms(1) by simp_all
  have ry: "ymin ext + int i * cs \<le> fst p" "fst p < ymin ext + int i * cs + cs"
    using my unfolding iy by linarith+
  have rx: "xmin ext + int j * cs \<le> snd p" "snd p < xmin ext + int j * cs + cs"
    using mx unfolding jx by linarith+
  from assms(2) have py: "fst p < ymax ext" and px: "snd p < xmax ext"
    by (simp_all add: in_box_def)
  let ?w = "make_square (ymin ext + int i * cs) (xmin ext + int j * cs) cs"
  have "ymin ext + int i * cs < ymax ext" "xmin ext + int j * cs < xmax ext"
    using ry rx py px by linarith+
  then have "?w \<in> set (grid_windows ext cs cs)"
    unfolding grid_windows_mem[OF assms(1)] by blast
  moreover have "in_box p ?w"
    using ry rx by (simp add: in_box_def make_square_def)
  ultimately show ?thesis by blast
qed

lemma concat_map_product:
  "concat (map (\<lambda>r. map (f r) cols) rows) = map (\<lambda>(r, c). f r c) (List.product rows cols)"
  by (induction rows) (simp_all add: comp_def)

lemma grid_windows_product:
  "grid_windows ext cs s
     = map (\<lambda>(r, c). make_square r c cs)
         (List.product (range_step (ymin ext) (ymax ext) s) (range_step (xmin ext) (xmax ext) s))"
  unfolding grid_windows_def by (rule concat_map_product)

lemma distinct_range_step: "distinct (range_step a b s)"
proof (cases "0 < s")
  case True
  then have "inj_on (\<lambda>i. a + int i * s) (set [0..<nat ((b - a + s - 1) div s)])"
    by (auto simp: inj_on_def)
  then show ?thesis
    using True by (simp add: range_step_def distinct_map)
next
  case False
  then show ?thesis by (simp add: range_step_def)
qed

lemma grid_windows_distinct: "distinct (grid_windows ext cs s)"
proof -
  have "inj (\<lambda>(r, c). make_square r c cs)"
    by (auto simp: inj_on_def make_square_def)
  then have "inj_on (\<lambda>(r, c). make_square r c cs) A" for A
    by (rule inj_on_subset) simp
  then show ?thesis
    unfolding grid_windows_product
    by (simp add: distinct_map distinct_product distinct_range_step)
qed

lemma grid_windows_corner:
  assumes "0 < s" "w \<in> set (grid_windows ext cs s)"
  shows "in_box (ymin w, xmin w) ext"
proof -
  from assms(2) obtain i j :: nat where
    w: "w = make_square (ymin ext + int i * s) (xmin ext + int j * s) cs"
    and y: "ymin ext + int i * s < ymax ext" and x: "xmin ext + int j * s < xmax ext"
    unfolding grid_windows_mem[OF assms(1)] by blast
  have "0 \<le> int i * s" "0 \<le> int j * s"
    using assms(1) by simp_all
  with y x show ?thesis
    by (simp add: w in_box_def make_square_def)
qed

subsection \<open>Training and prediction windows\<close>

lemma range_step_2_4: "range_step 0 4 2 = [0, 2]" "range_step 0 2 2 = [0]"
  by (simp_all add: range_step_def upt_rec)

lemma grid_example:
  "grid_windows \<lparr>ymin = 0, xmin = 0, ymax = 2, xmax = 4\<rparr> 2 2
     = [\<lparr>ymin = 0, xmin = 0, ymax = 2, xmax = 2\<rparr>, \<lparr>ymin = 0, xmin = 2, ymax = 2, xmax = 4\<rparr>]"
  by (simp add: grid_windows_def range_step_2_4 make_square_def)

text \<open>
  Claim C8, amended. For any scene and chip size, \<^verbatim>\<open>Classification.get_train_windows\<close>
  returns exactly the non-overlapping grid cells of that size over the raster extent
  (stride equal to chip size) whose pixel chip sums to a value greater than zero,
  excluding the cells whose chip sums to zero or less;
  \<^verbatim>\<open>Classification.get_predict_windows\<close> returns the same non-overlapping tiling with no
  content filtering. Whatever \<^verbatim>\<open>get_windows\<close> returns, the training windows are its
  windows for the stride \<open>chip_size\<close>, in order, filtered by the sum, and the prediction
  windows are all of them; for the grid and a positive chip size the cells are squares of
  side \<open>chip_size\<close> that start inside the extent, no two different cells overlap, no cell
  comes twice, and every pixel of the extent lies in a cell.
\<close>

theorem classification_windows:
  "get_train_windows gw scene options
     = filter (\<lambda>w. 0 < sum_list (ravel (get_chip (raster_source scene) w)))
         (gw (get_extent (raster_source scene)) (chip_size options) (chip_size options)) \<and>
   get_predict_windows gw extent options = gw extent (chip_size options) (chip_size options) \<and>
   get_train_windows gw scene options
     = filter (\<lambda>w. 0 < sum_list (ravel (get_chip (raster_source scene) w)))
         (get_predict_windows gw (get_extent (raster_source scene)) options) \<and>
   (0 < chip_size options \<longrightarrow>
      (\<forall>w \<in> set (get_predict_windows grid_windows extent options).
          ymax w - ymin w = chip_size options \<and> xmax w - xmin w = chip_size options \<and>
          in_box (ymin w, xmin w) extent) \<and>
      (\<forall>a \<in> set (get_predict_windows grid_windows extent options).
         \<forall>b \<in> set (get_predict_windows grid_windows extent options). overlap a b \<longrightarrow> a = b) \<and>
      distinct (get_predict_windows grid_windows extent options) \<and>
      (\<forall>p. in_box p extent \<longrightarrow>
           (\<exists>w \<in> set (get_predict_windows grid_windows extent options). in_box p w)) \<and>
      (\<forall>w. w \<in> set (get_train_windows grid_windows scene options) \<longleftrightarrow>
           w \<in> set (get_predict_windows grid_windows (get_extent (raster_source scene)) options) \<and>
           0 < sum_list (ravel (get_chip (raster_source scene) w))))"
proof -
  have tr: "get_train_windows gw scene options
     = filter (\<lambda>w. 0 < sum_list (ravel (get_chip (raster_source scene) w)))
         (gw (get_extent (raster_source scene)) (chip_size options) (chip_size options))" for gw
    by (simp add: get_train_windows_def train_windows_loop_filter Let_def)
  have pr: "get_predict_windows gw ext options = gw ext (chip_size options) (chip_size options)"
    for gw ext
    by (simp add: get_predict_windows_def Let_def)
  have grid: "(\<forall>w \<in> set (get_predict_windows grid_windows extent options).
          ymax w - ymin w = chip_size options \<and> xmax w - xmin w = chip_size options \<and>
          in_box (ymin w, xmin w) extent) \<and>
      (\<forall>a \<in> set (get_predict_windows grid_windows extent options).
         \<forall>b \<in> set (get_predict_windows grid_windows extent options). overlap a b \<longrightarrow> a = b) \<and>
      distinct (get_predict_windows grid_windows extent options) \<and>
      (\<forall>p. in_box p extent \<longrightarrow>
           (\<exists>w \<in> set (get_predict_windows grid_windows extent options). in_box p w)) \<and>
      (\<forall>w. w \<in> set (get_train_windows grid_windows scene options) \<longleftrightarrow>
           w \<in> set (get_predict_windows grid_windows (get_extent (raster_source scene)) options) \<and>
           0 < sum_list (ravel (get_chip (raster_source scene) w)))"
    if pos: "0 < chip_size options"
  proof (intro conjI ballI allI impI)
    fix w assume "w \<in> set (get_predict_windows grid_windows extent options)"
    then have w: "w \<in> set (grid_windows extent (chip_size options) (chip_size options))"
      by (simp only: pr)
    from grid_windows_square[OF w]
    show "ymax w - ymin w = chip_size options" "xmax w - xmin w = chip_size options"
      by simp_all
    from grid_windows_corner[OF pos w] show "in_box (ymin w, xmin w) extent" .
  next
    fix a b
    assume "a \<in> set (get_predict_windows grid_windows extent options)"
      "b \<in> set (get_predict_windows grid_windows extent options)" "overlap a b"
    then show "a = b"
      unfolding pr by (rule grid_windows_no_overlap[OF pos])
  next
    show "distinct (get_predict_windows grid_windows extent options)"
      unfolding pr by (rule grid_windows_distinct)
  next
    fix p assume "in_box p extent"
    from grid_windows_cover[OF pos this]
    show "\<exists>w \<in> set (get_predict_windows grid_windows extent options). in_box p w"
      unfolding pr .
  next
    fix w
    show "w \<in> set (get_train_windows grid_windows scene options) \<longleftrightarrow>
           w \<in> set (get_predict_windows grid_windows (get_extent (raster_source scene)) options) \<and>
           0 < sum_list (ravel (get_chip (raster_source scene) w))"
      unfolding tr pr by simp
  qed
  show ?thesis
    apply (intro conjI)
    subgoal by (rule tr)
    subgoal by (rule pr)
    subgoal unfolding pr by (rule tr)
    subgoal using grid by blast
    done
qed

theorem classification_windows_witness:
  "(0 :: int) < chip_size \<lparr>chip_size = 2\<rparr> \<and>
   get_train_windows grid_windows example_scene \<lparr>chip_size = 2\<rparr>
     = [\<lparr>ymin = 0, xmin = 0, ymax = 2, xmax = 2\<rparr>] \<and>
   get_predict_windows grid_windows \<lparr>ymin = 0, xmin = 0, ymax = 2, xmax = 4\<rparr> \<lparr>chip_size = 2\<rparr>
     = [\<lparr>ymin = 0, xmin = 0, ymax = 2, xmax = 2\<rparr>, \<lparr>ymin = 0, xmin = 2, ymax = 2, xmax = 4\<rparr>] \<and>
   \<not> overlap \<lparr>ymin = 0, xmin = 0, ymax = 2, xmax = 2\<rparr> \<lparr>ymin = 0, xmin = 2, ymax = 2, xmax = 4\<rparr> \<and>
   (\<exists>w. w \<in> set (get_predict_windows grid_windows \<lparr>ymin = 0, xmin = 0, ymax = 2, xmax = 4\<rparr>
                    \<lparr>chip_size = 2\<rparr>) \<and> in_box (1, 3) w)"
proof -
  note T = classification_windows
      [where gw = grid_windows and scene = example_scene and options = "\<lparr>chip_size = 2\<rparr>"
        and extent = "\<lparr>ymin = 0, xmin = 0, ymax = 2, xmax = 4\<rparr>"]
  have pos: "(0 :: int) < chip_size \<lparr>chip_size = 2\<rparr>" by simp
  have p1: "get_train_windows grid_windows example_scene \<lparr>chip_size = 2\<rparr>
     = [\<lparr>ymin = 0, xmin = 0, ymax = 2, xmax = 2\<rparr>]"
    using T [THEN conjunct1]
    by (simp add: example_scene_def grid_example ravel_def)
  have p2: "get_predict_windows grid_windows \<lparr>ymin = 0, xmin = 0, ymax = 2, xmax = 4\<rparr>
      \<lparr>chip_size = 2\<rparr>
     = [\<lparr>ymin = 0, xmin = 0, ymax = 2, xmax = 2\<rparr>, \<lparr>ymin = 0, xmin = 2, ymax = 2, xmax = 4\<rparr>]"
    using T [THEN conjunct2, THEN conjunct1]
    by (simp add: grid_example)
  note G = T [THEN conjunct2, THEN conjunct2, THEN conjunct2, rule_format, OF pos]
  have no: "\<forall>a \<in> set (get_predict_windows grid_windows \<lparr>ymin = 0, xmin = 0, ymax = 2, xmax = 4\<rparr>
                \<lparr>chip_size = 2\<rparr>).
         \<forall>b \<in> set (get_predict_windows grid_windows \<lparr>ymin = 0, xmin = 0, ymax = 2, xmax = 4\<rparr>
                \<lparr>chip_size = 2\<rparr>). overlap a b \<longrightarrow> a = b"
    using G by blast
  have p3: "\<not> overlap \<lparr>ymin = 0, xmin = 0, ymax = 2, xmax = 2\<rparr>
      \<lparr>ymin = 0, xmin = 2, ymax = 2, xmax = 4\<rparr>"
    using no unfolding p2 by auto
  have cov: "\<forall>p. in_box p \<lparr>ymin = 0, xmin = 0, ymax = 2, xmax = 4\<rparr> \<longrightarrow>
      (\<exists>w \<in> set (get_predict_windows grid_windows \<lparr>ymin = 0, xmin = 0, ymax = 2, xmax = 4\<rparr>
                \<lparr>chip_size = 2\<rparr>). in_box p w)"
    using G by blast
  have "in_box (1, 3) \<lparr>ymin = 0, xmin = 0, ymax = 2, xmax = 4\<rparr>"
    by (simp add: in_box_def)
  with cov have p4: "\<exists>w. w \<in> set (get_predict_windows grid_windows
      \<lparr>ymin = 0, xmin = 0, ymax = 2, xmax = 4\<rparr> \<lparr>chip_size = 2\<rparr>) \<and> in_box (1, 3) w"
    by blast
  show ?thesis
    using pos p1 p2 p3 p4 by (intro conjI)
qed

text \<open>
  The claim as it was stated fails: the right cell of the example scene has a chip that
  sums to \<open>- 1\<close>, which is not zero, and it is not among the training windows.
\<close>

theorem classification_windows_counterexample:
  "get_train_windows grid_windows example_scene \<lparr>chip_size = 2\<rparr>
     = [\<lparr>ymin = 0, xmin = 0, ymax = 2, xmax = 2\<rparr>] \<and>
   filter (\<lambda>w. sum_list (ravel (get_chip (raster_source example_scene) w)) \<noteq> 0)
     (get_predict_windows grid_windows (get_extent (raster_source example_scene))
        \<lparr>chip_size = 2\<rparr>)
     = [\<lparr>ymin = 0, xmin = 0, ymax = 2, xmax = 2\<rparr>, \<lparr>ymin = 0, xmin = 2, ymax = 2, xmax = 4\<rparr>]"
  by (simp add: get_train_windows_def get_predict_windows_def train_windows_loop_filter
      example_scene_def grid_example ravel_def)

end
